theory Spec2Isabelle
  imports Main "HOL-Library.Sublist"
begin

section \<open>Payflow demo: policy codec, merchant directory, sweep and scheduler\<close>

text \<open>
  A shallow embedding of the payflow-demo example: the policy condition that
  \<^verbatim>\<open>createPolicy.ts\<close> builds and that \<^verbatim>\<open>commands/viewPolicies.ts\<close> decodes for display,
  the merchant directory listing of \<^verbatim>\<open>utils/merchants.ts\<close>, the per-wallet sweep, and the
  batch and scheduled sweep commands.

  JavaScript strings are modelled as \<^typ>\<open>string\<close> (lists of 8-bit characters); the policy
  language, hexadecimal addresses and all fixed fragments are ASCII. The one non-ASCII
  glyph in the display output, the arrow, is written as its three UTF-8 bytes.
\<close>

subsection \<open>String primitives of the runtime\<close>

text \<open>\<^verbatim>\<open>String.prototype.includes\<close>: does \<open>sub\<close> occur somewhere in the string.\<close>

fun str_includes :: "string \<Rightarrow> string \<Rightarrow> bool" where
  "str_includes sub [] = (sub = [])"
| "str_includes sub (c # cs) = (prefix sub (c # cs) \<or> str_includes sub cs)"

text \<open>
  \<^verbatim>\<open>String.prototype.split\<close> with a non-empty separator: scan from the left, cut at every
  occurrence of the separator and resume after it. The accumulator holds the current
  piece reversed. (With an empty separator the runtime splits into characters; the code
  only ever splits on \<^verbatim>\<open>" && "\<close>, and the model then returns the string whole.)
\<close>

function split_go :: "string \<Rightarrow> string \<Rightarrow> string \<Rightarrow> string list" where
  "split_go sep acc [] = [rev acc]"
| "split_go sep acc (c # cs) =
     (if sep \<noteq> [] \<and> prefix sep (c # cs)
      then rev acc # split_go sep [] (drop (length sep) (c # cs))
      else split_go sep (c # acc) cs)"
  by pat_completeness auto
termination
  by (relation "measure (\<lambda>(sep, acc, s). length s)") auto

definition split :: "string \<Rightarrow> string \<Rightarrow> string list" where
  "split sep s = split_go sep [] s"


definition is_space :: "char \<Rightarrow> bool" where
  "is_space c = (c = CHR '' '' \<or> c = CHR 0x09 \<or> c = CHR 0x0A \<or> c = CHR 0x0B
                 \<or> c = CHR 0x0C \<or> c = CHR 0x0D)"

definition trim :: "string \<Rightarrow> string" where
  "trim s = rev (dropWhile is_space (rev (dropWhile is_space s)))"

text \<open>\<^verbatim>\<open>s.slice(-n)\<close>: the last \<open>n\<close> characters, the whole string when it is shorter.\<close>

definition slice_last :: "nat \<Rightarrow> string \<Rightarrow> string" where
  "slice_last n s = drop (length s - n) s"

text \<open>\<^verbatim>\<open>s.slice(0, n)\<close>.\<close>

definition slice_first :: "nat \<Rightarrow> string \<Rightarrow> string" where
  "slice_first n s = take n s"

text \<open>\<^verbatim>\<open>String.prototype.toLowerCase\<close> on ASCII letters.\<close>

definition lower_char :: "char \<Rightarrow> char" where
  "lower_char c =
     (let n = (of_char c :: nat) in if 65 \<le> n \<and> n \<le> 90 then char_of (n + 32) else c)"

definition toLowerCase :: "string \<Rightarrow> string" where
  "toLowerCase s = map lower_char s"

text \<open>Decimal rendering of a number inside a template literal.\<close>

definition digit_char :: "nat \<Rightarrow> char" where
  "digit_char d = ''0123456789'' ! d"

fun show_nat :: "nat \<Rightarrow> string" where
  "show_nat n = (if n < 10 then [digit_char n] else show_nat (n div 10) @ [digit_char (n mod 10)])"

declare show_nat.simps [simp del]

text \<open>
  A regular expression of the shape \<^verbatim>\<open>/LIT([^']+)'/\<close>, where \<open>LIT\<close> is a literal text that
  ends with the opening quote: \<^verbatim>\<open>String.prototype.match\<close> tries every start position
  from the left; at a position the literal must be present, then a greedy non-empty run
  of characters other than the quote, then a quote. The result is capture group 1 at the
  first position that matches. (Giving back characters of the greedy run never helps:
  the character after a shorter run is not a quote.)
\<close>

definition quote :: char where
  "quote = CHR 0x27"

definition match_at :: "string \<Rightarrow> string \<Rightarrow> string option" where
  "match_at pre s =
     (if prefix pre s then
        (let rest = drop (length pre) s;
             body = takeWhile (\<lambda>c. c \<noteq> quote) rest;
             after = dropWhile (\<lambda>c. c \<noteq> quote) rest
         in if body \<noteq> [] \<and> after \<noteq> [] then Some body else None)
      else None)"

fun re_match :: "string \<Rightarrow> string \<Rightarrow> string option" where
  "re_match pre [] = match_at pre []"
| "re_match pre (c # cs) =
     (case match_at pre (c # cs) of Some b \<Rightarrow> Some b | None \<Rightarrow> re_match pre cs)"

subsection \<open>The policy condition (PredicateCodec)\<close>

text \<open>
  From \<^verbatim>\<open>docs/04-policies.md\<close> (the condition built in \<^verbatim>\<open>createPolicy.ts\<close>):
  \<^verbatim>\<open>
  const condition = [
    `eth.tx.to == '${usdcTokenAddress.toLowerCase()}'`,
    `eth.tx.data[2..10] == 'a9059cbb'`,
    `eth.tx.data[10..74] == '${treasuryAddressPadded}'`,
  ].join(" && ");
  \<close>
\<close>

fun join :: "string \<Rightarrow> string list \<Rightarrow> string" where
  "join sep [] = []"
| "join sep [x] = x"
| "join sep (x # y # ys) = x @ sep @ join sep (y # ys)"

definition policy_condition :: "string \<Rightarrow> string \<Rightarrow> string" where
  "policy_condition usdcTokenAddress treasuryAddressPadded =
     join '' && ''
       [''eth.tx.to == '' @ [quote] @ toLowerCase usdcTokenAddress @ [quote],
        ''eth.tx.data[2..10] == '' @ [quote] @ ''a9059cbb'' @ [quote],
        ''eth.tx.data[10..74] == '' @ [quote] @ treasuryAddressPadded @ [quote]]"

text \<open>The three clauses of the condition, by themselves.\<close>

definition clause1 :: "string \<Rightarrow> string" where
  "clause1 a = ''eth.tx.to == '' @ [quote] @ a @ [quote]"

definition clause2 :: string where
  "clause2 = ''eth.tx.data[2..10] == '' @ [quote] @ ''a9059cbb'' @ [quote]"

definition clause3 :: "string \<Rightarrow> string" where
  "clause3 p = ''eth.tx.data[10..74] == '' @ [quote] @ p @ [quote]"

text \<open>
  Modelled from the spec: \<^verbatim>\<open>createPolicy.ts\<close> itself is not among the sources, so the
  computation of \<^verbatim>\<open>treasuryAddressPadded\<close> and the address validation follow the
  specification: compile lower-cases both addresses, asserts each is a well-formed
  20-byte address (failing with InvalidAddress otherwise) and left-pads the destination
  to a 32-byte slot (64 hexadecimal digits, without the \<^verbatim>\<open>0x\<close> prefix).
\<close>

definition is_hex_digit :: "char \<Rightarrow> bool" where
  "is_hex_digit c = (c \<in> set ''0123456789abcdef'')"

definition well_formed_address :: "string \<Rightarrow> bool" where
  "well_formed_address a =
     (length a = 42 \<and> take 2 a = ''0x'' \<and> list_all is_hex_digit (drop 2 a))"

text \<open>The characters of a well-formed lower-case address: hexadecimal digits and the \<^verbatim>\<open>x\<close>.\<close>

definition addr_char :: "char \<Rightarrow> bool" where
  "addr_char c = (is_hex_digit c \<or> c = CHR ''x'')"

definition treasuryAddressPadded :: "string \<Rightarrow> string" where
  "treasuryAddressPadded destinationAddress =
     replicate 24 (CHR ''0'') @ drop 2 (toLowerCase destinationAddress)"

datatype codec_error = InvalidAddress

definition compile :: "string \<Rightarrow> string \<Rightarrow> codec_error + string" where
  "compile tokenAddress destinationAddress =
     (if well_formed_address (toLowerCase tokenAddress)
         \<and> well_formed_address (toLowerCase destinationAddress)
      then Inr (policy_condition tokenAddress (treasuryAddressPadded destinationAddress))
      else Inl InvalidAddress)"

text \<open>
  \<^verbatim>\<open>formatCondition\<close> of \<^verbatim>\<open>commands/viewPolicies.ts\<close>. The helper \<^verbatim>\<open>formatAddress\<close> lives in
  \<^verbatim>\<open>utils.ts\<close>, which is not among the sources; it is the parameter \<open>fa\<close>.
\<close>

definition arrow :: string where
  "arrow = [CHR 0xE2, CHR 0x86, CHR 0x92]"

definition generic_line :: "nat \<Rightarrow> string \<Rightarrow> string" where
  "generic_line idx part = ''   '' @ show_nat (idx + 1) @ ''. '' @ part"

definition format_part :: "(string \<Rightarrow> string) \<Rightarrow> nat \<Rightarrow> string \<Rightarrow> string list" where
  "format_part fa idx part =
     (if str_includes ''eth.tx.to =='' part then
        (case re_match (''eth.tx.to == '' @ [quote]) part of
           Some address \<Rightarrow>
             [''   '' @ show_nat (idx + 1) @ ''. Transaction Destination:'',
              ''      eth.tx.to == '' @ [quote] @ address @ [quote],
              ''      '' @ arrow @ '' Must be to USDC token contract ('' @ fa address @ '')'']
         | None \<Rightarrow> [generic_line idx part])
      else if str_includes ''eth.tx.data[2..10] =='' part then
        (case re_match (''eth.tx.data[2..10] == '' @ [quote]) part of
           Some selector \<Rightarrow>
             [''   '' @ show_nat (idx + 1) @ ''. Function Selector:'',
              ''      eth.tx.data[2..10] == '' @ [quote] @ selector @ [quote],
              ''      '' @ arrow @ '' ERC-20 transfer() function (0x'' @ selector @ '')'']
         | None \<Rightarrow> [generic_line idx part])
      else if str_includes ''eth.tx.data[10..74] =='' part then
        (case re_match (''eth.tx.data[10..74] == '' @ [quote]) part of
           Some paddedAddress \<Rightarrow>
             (let actualAddress = ''0x'' @ slice_last 40 paddedAddress in
              [''   '' @ show_nat (idx + 1) @ ''. Transfer Destination:'',
               ''      eth.tx.data[10..74] == '' @ [quote] @ paddedAddress @ [quote],
               ''      '' @ arrow @ '' Treasury address: '' @ fa actualAddress])
         | None \<Rightarrow> [generic_line idx part])
      else [generic_line idx part])"

definition condition_parts :: "string \<Rightarrow> string list" where
  "condition_parts condition = map trim (split '' && '' condition)"

definition formatCondition :: "(string \<Rightarrow> string) \<Rightarrow> string \<Rightarrow> string list" where
  "formatCondition fa condition =
     (if condition = [] then []
      else
        (let parts = condition_parts condition in
         foldl (\<lambda>formatted (idx, part). formatted @ format_part fa idx part) []
           (zip [0 ..< length parts] parts)))"

text \<open>
  The values that \<^verbatim>\<open>formatCondition\<close> binds while decoding one clause (\<^verbatim>\<open>address\<close>,
  \<^verbatim>\<open>selector\<close>, \<^verbatim>\<open>paddedAddress\<close> with \<^verbatim>\<open>actualAddress\<close>), before they are rendered.
\<close>

datatype clause =
    TxTo string
  | Selector string
  | TransferDest string string
  | Unrecognized string

definition decode_part :: "string \<Rightarrow> clause" where
  "decode_part part =
     (if str_includes ''eth.tx.to =='' part then
        (case re_match (''eth.tx.to == '' @ [quote]) part of
           Some address \<Rightarrow> TxTo address
         | None \<Rightarrow> Unrecognized part)
      else if str_includes ''eth.tx.data[2..10] =='' part then
        (case re_match (''eth.tx.data[2..10] == '' @ [quote]) part of
           Some selector \<Rightarrow> Selector selector
         | None \<Rightarrow> Unrecognized part)
      else if str_includes ''eth.tx.data[10..74] =='' part then
        (case re_match (''eth.tx.data[10..74] == '' @ [quote]) part of
           Some paddedAddress \<Rightarrow> TransferDest paddedAddress (''0x'' @ slice_last 40 paddedAddress)
         | None \<Rightarrow> Unrecognized part)
      else Unrecognized part)"

text \<open>
  The specification's \<^verbatim>\<open>decompile\<close>, read off the decoded clauses: token address,
  destination address and function selector of a three-clause restriction.
\<close>

definition decompile :: "string \<Rightarrow> (string \<times> string \<times> string) option" where
  "decompile condition =
     (case map decode_part (condition_parts condition) of
        [TxTo t, Selector s, TransferDest p d] \<Rightarrow> Some (t, d, s)
      | _ \<Rightarrow> None)"

text \<open>The 160-bit value that a hexadecimal address denotes.\<close>

definition hex_val :: "char \<Rightarrow> nat" where
  "hex_val c =
     (let n = (of_char c :: nat) in
      if 48 \<le> n \<and> n \<le> 57 then n - 48
      else if 97 \<le> n \<and> n \<le> 102 then n - 87
      else if 65 \<le> n \<and> n \<le> 70 then n - 55
      else 0)"

definition addr_value :: "string \<Rightarrow> nat" where
  "addr_value a = foldl (\<lambda>v c. 16 * v + hex_val c) 0 (drop 2 a)"

subsection \<open>Merchant directory (utils/merchants.ts)\<close>

text \<open>
  Every awaited Turnkey API call either resolves to a response object or rejects with an
  \<^verbatim>\<open>Error\<close>; the rejection is \<open>Inl\<close> of the error's message. Optional fields of the
  responses (read in the source with \<^verbatim>\<open>||\<close> and \<^verbatim>\<open>?.\<close>) are options. The console warnings
  that \<^verbatim>\<open>listMerchants\<close> prints are not part of its result and are left out. The
  construction of the parent client (\<^verbatim>\<open>getTurnkeyClient()\<close>, in \<^verbatim>\<open>provider.ts\<close>, before the
  \<^verbatim>\<open>try\<close>) only reads the configuration and is taken to succeed; the construction of a
  sub-organization client is inside the inner \<^verbatim>\<open>try\<close> and may fail like a call. Local
  variables that would clash with a record field carry the suffix \<open>List\<close>.
\<close>

type_synonym 'a response = "string + 'a"

record api_wallet =
  api_walletId :: string
  api_walletName :: "string option"

record api_organization =
  api_organizationName :: "string option"
  api_name :: "string option"

record api_account =
  api_address :: "string option"

record api_policy =
  api_policyId :: "string option"
  api_policyName :: "string option"
  api_effect :: "string option"
  api_condition :: "string option"
  api_consensus :: "string option"
  api_notes :: "string option"

record turnkey_api =
  getSubOrgIds :: "string \<Rightarrow> string list option response"
  getTurnkeyClientForSubOrg :: "string \<Rightarrow> unit response"
  getWallets :: "string \<Rightarrow> api_wallet list option response"
  getOrganization :: "string \<Rightarrow> api_organization option response"
  getWalletAccounts :: "string \<Rightarrow> string \<Rightarrow> api_account list option response"
  getPolicies :: "string \<Rightarrow> api_policy list option response"

record merchant_wallet =
  walletId :: string
  walletName :: string
  address :: string

record PolicyInfo =
  policyId :: string
  policyName :: string
  effect :: string
  condition :: "string option"
  consensus :: "string option"
  policyNotes :: "string option"

record MerchantInfo =
  subOrganizationId :: string
  subOrganizationName :: string
  wallets :: "merchant_wallet list"
  policies :: "PolicyInfo list"

text \<open>Truthiness of an optional string, and \<^verbatim>\<open>a || b\<close> on strings.\<close>

definition truthy :: "string option \<Rightarrow> bool" where
  "truthy v = (case v of None \<Rightarrow> False | Some s \<Rightarrow> s \<noteq> [])"

definition or_else :: "string option \<Rightarrow> string \<Rightarrow> string" where
  "or_else v dflt = (case v of None \<Rightarrow> dflt | Some s \<Rightarrow> if s = [] then dflt else s)"

definition or_list :: "'a list option \<Rightarrow> 'a list" where
  "or_list v = (case v of None \<Rightarrow> [] | Some xs \<Rightarrow> xs)"

text \<open>\<^verbatim>\<open>s.replace(pat, rep)\<close> with a string pattern: the first occurrence only.\<close>

fun replace_first :: "string \<Rightarrow> string \<Rightarrow> string \<Rightarrow> string" where
  "replace_first pat rep [] = (if pat = [] then rep else [])"
| "replace_first pat rep (c # cs) =
     (if prefix pat (c # cs) then rep @ drop (length pat) (c # cs)
      else c # replace_first pat rep cs)"

text \<open>
  \<^verbatim>\<open>orgResponse.organization?.organizationName || orgResponse.organization?.name || null\<close>,
  and \<^verbatim>\<open>null\<close> when \<^verbatim>\<open>getOrganization\<close> rejects.
\<close>

definition organization_name :: "api_organization option response \<Rightarrow> string option" where
  "organization_name r =
     (case r of
        Inl err \<Rightarrow> None
      | Inr None \<Rightarrow> None
      | Inr (Some org) \<Rightarrow>
          if truthy (api_organizationName org) then api_organizationName org
          else if truthy (api_name org) then api_name org
          else None)"

text \<open>The name derived from the wallets when the organization gave none.\<close>

definition wallet_based_name :: "string \<Rightarrow> api_wallet list \<Rightarrow> string" where
  "wallet_based_name subOrgId walletList =
     (let originalWallet =
            (case find (\<lambda>w. truthy (api_walletName w)
                            \<and> suffix '' Wallet'' (or_else (api_walletName w) [])) walletList of
               Some w \<Rightarrow> Some w
             | None \<Rightarrow> (case walletList of [] \<Rightarrow> None | w # rest \<Rightarrow> Some w));
          derived =
            (case originalWallet of
               None \<Rightarrow> None
             | Some w \<Rightarrow> map_option (replace_first '' Wallet'' []) (api_walletName w))
      in or_else derived (slice_first 8 subOrgId @ ''...''))"

text \<open>One element of the \<^verbatim>\<open>Promise.all(wallets.map(...))\<close>: the wallet with its primary address.\<close>

definition wallet_with_address :: "turnkey_api \<Rightarrow> string \<Rightarrow> api_wallet \<Rightarrow> merchant_wallet" where
  "wallet_with_address api subOrgId wallet =
     (case getWalletAccounts api subOrgId (api_walletId wallet) of
        Inr accountsResponse \<Rightarrow>
          \<lparr>walletId = api_walletId wallet,
           walletName = or_else (api_walletName wallet) ''Unnamed Wallet'',
           address =
             or_else (case or_list accountsResponse of [] \<Rightarrow> None | a # rest \<Rightarrow> api_address a)
               ''N/A''\<rparr>
      | Inl err \<Rightarrow>
          \<lparr>walletId = api_walletId wallet,
           walletName = or_else (api_walletName wallet) ''Unnamed Wallet'',
           address = ''N/A''\<rparr>)"

definition policy_info :: "api_policy \<Rightarrow> PolicyInfo" where
  "policy_info policy =
     \<lparr>policyId = or_else (api_policyId policy) [],
      policyName = or_else (api_policyName policy) ''Unnamed Policy'',
      effect = or_else (api_effect policy) ''UNKNOWN'',
      condition = api_condition policy,
      consensus = api_consensus policy,
      policyNotes = api_notes policy\<rparr>"

definition sub_org_policies :: "turnkey_api \<Rightarrow> string \<Rightarrow> PolicyInfo list" where
  "sub_org_policies api subOrgId =
     (case getPolicies api subOrgId of
        Inr policiesResponse \<Rightarrow> map policy_info (or_list policiesResponse)
      | Inl err \<Rightarrow> [])"

text \<open>
  The body of the inner \<^verbatim>\<open>try\<close> of the loop over sub-organizations: \<open>Inl\<close> when control
  reaches the inner \<^verbatim>\<open>catch\<close> (creating the client or listing the wallets failed).
\<close>

definition read_sub_org :: "turnkey_api \<Rightarrow> string \<Rightarrow> MerchantInfo response" where
  "read_sub_org api subOrgId =
     (case getTurnkeyClientForSubOrg api subOrgId of
        Inl err \<Rightarrow> Inl err
      | Inr client \<Rightarrow>
          (case getWallets api subOrgId of
             Inl err \<Rightarrow> Inl err
           | Inr walletsResponse \<Rightarrow>
               (let walletList = or_list walletsResponse;
                    subOrgName =
                      (case organization_name (getOrganization api subOrgId) of
                         Some n \<Rightarrow> n
                       | None \<Rightarrow> wallet_based_name subOrgId walletList);
                    merchantWallets = map (wallet_with_address api subOrgId) walletList;
                    policyList = sub_org_policies api subOrgId
                in Inr \<lparr>subOrganizationId = subOrgId,
                        subOrganizationName = subOrgName,
                        wallets = merchantWallets,
                        policies = policyList\<rparr>)))"

text \<open>
  The body of the loop over sub-organization ids: the merchant is pushed, or the
  sub-organization is skipped when the inner \<^verbatim>\<open>catch\<close> was reached.
\<close>

definition collect_step :: "turnkey_api \<Rightarrow> MerchantInfo list \<Rightarrow> string \<Rightarrow> MerchantInfo list" where
  "collect_step api merchants subOrgId =
     (case read_sub_org api subOrgId of
        Inr merchant \<Rightarrow> merchants @ [merchant]
      | Inl err \<Rightarrow> merchants)"

definition listMerchants :: "turnkey_api \<Rightarrow> string \<Rightarrow> MerchantInfo list response" where
  "listMerchants api organizationId =
     (case getSubOrgIds api organizationId of
        Inl message \<Rightarrow> Inl (''Failed to list merchants: '' @ or_else (Some message) ''Unknown error'')
      | Inr subOrgsResponse \<Rightarrow> Inr (foldl (collect_step api) [] (or_list subOrgsResponse)))"

text \<open>
  A directory for examples: two sub-organizations; the wallets of the first cannot be
  listed; the second has one wallet, and reading its organization, its wallet accounts
  and its policies all fail.
\<close>

definition example_api :: turnkey_api where
  "example_api =
     \<lparr>getSubOrgIds = (\<lambda>organizationId. Inr (Some [''sub-a'', ''sub-b''])),
      getTurnkeyClientForSubOrg = (\<lambda>subOrgId. Inr ()),
      getWallets =
        (\<lambda>subOrgId.
           if subOrgId = ''sub-a'' then Inl ''permission denied''
           else Inr (Some [\<lparr>api_walletId = ''w1'', api_walletName = Some ''Acme Wallet''\<rparr>])),
      getOrganization = (\<lambda>subOrgId. Inl ''timeout''),
      getWalletAccounts = (\<lambda>subOrgId wallet. Inl ''timeout''),
      getPolicies = (\<lambda>subOrgId. Inl ''permission denied'')\<rparr>"

subsection \<open>The sweep of one wallet (SweepOrchestrator)\<close>

text \<open>
  Modelled from the spec: \<^verbatim>\<open>sweepUSDC.ts\<close> is not among the sources; only its callers and
  the excerpts of \<^verbatim>\<open>docs/05-fund-sweeping.md\<close> are. The states and outcomes follow section
  4.2 of the specification (checks, transfer, broadcast, confirm). The three guards and
  their order are those of the documentation's excerpt, the token balance before the
  gas, which is also the order of the same guards in \<^verbatim>\<open>commands/sendFunds.ts\<close>; both
  balances are read before the guards:
  \<^verbatim>\<open>
  if (balance === 0n) { ... "No USDC balance to sweep" }
  if (balance < thresholdRaw) { ... "Balance below threshold" }
  if (merchantEthBalance < ethers.parseEther("0.001")) { ... "Insufficient ETH for gas fees" }
  const transferTx = await usdcContract.transfer(treasuryAddress, balance);
  const receipt = await provider.waitForTransaction(transferTx.hash, 1);
  if (receipt.status !== 1) { ... "Transaction failed" }
  \<close>
  Amounts are in base units (natural numbers). The chain is seen through the source
  account: its native balance and its token balance. The destination is another account,
  so a transfer that lands debits the amount from the source's token balance, and the
  source pays the gas fee of every transaction that lands (the documentation: the
  merchant wallet pays for gas). The collaborators' answers to this invocation are
  inputs: what the delegated signer returns, what the confirmation wait observes, and
  the fee the chain charges. The addresses, the isolation context, the wallet handle and
  the network of the contract only say which account and which collaborators are asked;
  they do not enter the decisions.
\<close>

datatype classification =
    InsufficientGas
  | NoBalance
  | BelowThreshold
  | SigningRejected
  | SigningUnavailable
  | TransactionFailed
  | ConfirmationUnknown
  | Success

datatype signer_failure = Rejected | Unavailable

datatype confirmation =
    Confirmed
  | Reverted
  | Unobservable bool

datatype chain_call =
    GetNativeBalance
  | GetTokenBalance
  | SignAndSend nat
  | WaitForConfirmation string

record sweep_config =
  threshold :: nat
  minGas :: nat

record collaborators =
  sign_result :: "signer_failure + string"
  confirm_result :: confirmation
  gas_fee :: nat

record source_account =
  native_balance :: nat
  token_balance :: nat

record SweepOutcome =
  kind :: classification
  sweep_amount :: "nat option"
  transaction_id :: "string option"

definition is_skip :: "classification \<Rightarrow> bool" where
  "is_skip k = (k = InsufficientGas \<or> k = NoBalance \<or> k = BelowThreshold)"

definition is_failed :: "classification \<Rightarrow> bool" where
  "is_failed k = (k = SigningRejected \<or> k = SigningUnavailable \<or> k = TransactionFailed
                  \<or> k = ConfirmationUnknown)"

definition skipped :: "classification \<Rightarrow> SweepOutcome" where
  "skipped k = \<lparr>kind = k, sweep_amount = None, transaction_id = None\<rparr>"

text \<open>The effect of a transaction that lands: the fee is paid, a successful transfer debits the amount.\<close>

definition pay_fee :: "nat \<Rightarrow> source_account \<Rightarrow> source_account" where
  "pay_fee fee acct = acct\<lparr>native_balance := native_balance acct - fee\<rparr>"

definition debit :: "nat \<Rightarrow> source_account \<Rightarrow> source_account" where
  "debit amt acct = acct\<lparr>token_balance := token_balance acct - amt\<rparr>"

definition sweep ::
  "sweep_config \<Rightarrow> collaborators \<Rightarrow> source_account
   \<Rightarrow> SweepOutcome \<times> source_account \<times> chain_call list" where
  "sweep cfg collab acct =
     (if token_balance acct = 0 then
        (skipped NoBalance, acct, [GetNativeBalance, GetTokenBalance])
      else if token_balance acct < threshold cfg then
        (skipped BelowThreshold, acct, [GetNativeBalance, GetTokenBalance])
      else if native_balance acct < minGas cfg then
        (skipped InsufficientGas, acct, [GetNativeBalance, GetTokenBalance])
      else
        (let balance = token_balance acct;
             issued = [GetNativeBalance, GetTokenBalance, SignAndSend balance]
         in case sign_result collab of
              Inl Rejected \<Rightarrow>
                (\<lparr>kind = SigningRejected, sweep_amount = Some balance, transaction_id = None\<rparr>,
                 acct, issued)
            | Inl Unavailable \<Rightarrow>
                (\<lparr>kind = SigningUnavailable, sweep_amount = Some balance, transaction_id = None\<rparr>,
                 acct, issued)
            | Inr txId \<Rightarrow>
                (case confirm_result collab of
                   Confirmed \<Rightarrow>
                     (\<lparr>kind = Success, sweep_amount = Some balance, transaction_id = Some txId\<rparr>,
                      debit balance (pay_fee (gas_fee collab) acct),
                      issued @ [WaitForConfirmation txId])
                 | Reverted \<Rightarrow>
                     (\<lparr>kind = TransactionFailed, sweep_amount = Some balance,
                       transaction_id = Some txId\<rparr>,
                      pay_fee (gas_fee collab) acct,
                      issued @ [WaitForConfirmation txId])
                 | Unobservable landed \<Rightarrow>
                     (\<lparr>kind = ConfirmationUnknown, sweep_amount = Some balance,
                       transaction_id = Some txId\<rparr>,
                      (if landed then debit balance (pay_fee (gas_fee collab) acct) else acct),
                      issued @ [WaitForConfirmation txId]))))"

definition outcome_of :: "SweepOutcome \<times> source_account \<times> chain_call list \<Rightarrow> SweepOutcome" where
  "outcome_of r = fst r"

definition account_after :: "SweepOutcome \<times> source_account \<times> chain_call list \<Rightarrow> source_account" where
  "account_after r = fst (snd r)"

definition calls_of :: "SweepOutcome \<times> source_account \<times> chain_call list \<Rightarrow> chain_call list" where
  "calls_of r = snd (snd r)"

definition issues_transaction :: "chain_call list \<Rightarrow> bool" where
  "issues_transaction cs = list_ex (\<lambda>c. case c of SignAndSend a \<Rightarrow> True | _ \<Rightarrow> False) cs"

text \<open>
  Example values: a threshold of 0.03 USDC (six decimals), the gas reserve of 0.001 ETH,
  and collaborators that sign and confirm.
\<close>

definition example_config :: sweep_config where
  "example_config = \<lparr>threshold = 30000, minGas = 1000000000000000\<rparr>"

definition example_collaborators :: collaborators where
  "example_collaborators =
     \<lparr>sign_result = Inr ''0xabc'', confirm_result = Confirmed, gas_fee = 50000000000000\<rparr>"

subsection \<open>What the callers see: \<^verbatim>\<open>SweepResult\<close>\<close>

text \<open>
  The object that \<^verbatim>\<open>sweepUSDC\<close> resolves to, as the commands read it (\<^verbatim>\<open>success\<close>,
  \<^verbatim>\<open>amount\<close>, \<^verbatim>\<open>transactionHash\<close>, \<^verbatim>\<open>error\<close>), and the error texts that the documentation's
  excerpts return for four of the classifications.
\<close>

record SweepResult =
  success :: bool
  amount :: "string option"
  transactionHash :: "string option"
  error :: "string option"

definition failure_result :: "string \<Rightarrow> SweepResult" where
  "failure_result msg = \<lparr>success = False, amount = None, transactionHash = None, error = Some msg\<rparr>"

fun documented_error :: "classification \<Rightarrow> string option" where
  "documented_error NoBalance = Some ''No USDC balance to sweep''"
| "documented_error BelowThreshold = Some ''Balance below threshold''"
| "documented_error InsufficientGas = Some ''Insufficient ETH for gas fees''"
| "documented_error TransactionFailed = Some ''Transaction failed''"
| "documented_error k = None"

subsection \<open>The one-time sweep command (commands/sweepFunds.ts, \<^verbatim>\<open>runSweepFunds\<close>)\<close>

text \<open>
  The commands call \<^verbatim>\<open>sweepUSDC\<close> inside \<^verbatim>\<open>try\<close>/\<^verbatim>\<open>catch\<close>, so they are modelled for any
  behaviour of that call: a parameter that, given the arguments and the state of the
  outside world, either resolves to a \<^verbatim>\<open>SweepResult\<close> or rejects with a message, and
  returns the new state of the world. The list of the calls made is kept beside the
  results, in the order in which they are awaited. Spinner and console output of this
  command is left out; its \<^verbatim>\<open>results\<close> array is what the summary is computed from.
\<close>

record sweep_args =
  arg_merchantAddress :: string
  arg_merchantSubOrgId :: string
  arg_merchantWalletId :: string
  arg_treasuryAddress :: string
  arg_usdcTokenAddress :: string
  arg_network :: string

record command_env =
  env_treasuryAddress :: string
  env_usdcTokenAddress :: string
  env_network :: string

type_synonym 'w sweeper = "sweep_args \<Rightarrow> 'w \<Rightarrow> SweepResult response \<times> 'w"

definition sweep_args_for :: "command_env \<Rightarrow> MerchantInfo \<Rightarrow> merchant_wallet \<Rightarrow> sweep_args" where
  "sweep_args_for env merchant wallet =
     \<lparr>arg_merchantAddress = address wallet,
      arg_merchantSubOrgId = subOrganizationId merchant,
      arg_merchantWalletId = walletId wallet,
      arg_treasuryAddress = env_treasuryAddress env,
      arg_usdcTokenAddress = env_usdcTokenAddress env,
      arg_network = env_network env\<rparr>"

record sweep_entry =
  r_merchantName :: string
  r_walletAddress :: string
  r_walletName :: string
  r_success :: bool
  r_amount :: "string option"
  r_transactionHash :: "string option"
  r_error :: "string option"

record 'w batch =
  results :: "sweep_entry list"
  world :: 'w
  sweep_calls :: "sweep_args list"

definition push_entry ::
  "MerchantInfo \<Rightarrow> merchant_wallet \<Rightarrow> bool \<Rightarrow> string option \<Rightarrow> string option \<Rightarrow> string option
   \<Rightarrow> 'w batch \<Rightarrow> 'w batch" where
  "push_entry merchant wallet ok amt hash err st =
     st\<lparr>results := results st @
          [\<lparr>r_merchantName = subOrganizationName merchant,
            r_walletAddress = address wallet,
            r_walletName = walletName wallet,
            r_success = ok,
            r_amount = amt,
            r_transactionHash = hash,
            r_error = err\<rparr>]\<rparr>"

definition sweepFunds_wallet ::
  "'w sweeper \<Rightarrow> command_env \<Rightarrow> MerchantInfo \<Rightarrow> 'w batch \<Rightarrow> merchant_wallet \<Rightarrow> 'w batch" where
  "sweepFunds_wallet sweepUSDC env merchant st wallet =
     (if address wallet = ''N/A'' then
        push_entry merchant wallet False None None (Some ''Address not available'') st
      else
        (let args = sweep_args_for env merchant wallet;
             answer = sweepUSDC args (world st);
             st1 = st\<lparr>world := snd answer, sweep_calls := sweep_calls st @ [args]\<rparr>
         in case fst answer of
              Inr sweepResult \<Rightarrow>
                if success sweepResult then
                  push_entry merchant wallet True (amount sweepResult)
                    (transactionHash sweepResult) None st1
                else push_entry merchant wallet False None None (error sweepResult) st1
            | Inl message \<Rightarrow> push_entry merchant wallet False None None (Some message) st1))"

definition sweepFunds_merchant ::
  "'w sweeper \<Rightarrow> command_env \<Rightarrow> 'w batch \<Rightarrow> MerchantInfo \<Rightarrow> 'w batch" where
  "sweepFunds_merchant sweepUSDC env st merchant =
     (if wallets merchant = [] then st
      else foldl (sweepFunds_wallet sweepUSDC env merchant) st (wallets merchant))"

definition sweepFunds_loop ::
  "'w sweeper \<Rightarrow> command_env \<Rightarrow> MerchantInfo list \<Rightarrow> 'w batch \<Rightarrow> 'w batch" where
  "sweepFunds_loop sweepUSDC env merchants st =
     foldl (sweepFunds_merchant sweepUSDC env) st merchants"

text \<open>
  The whole command: it returns early, before any sweep, when the token address is not
  configured (\<open>usdc\<close> is the value of \<^verbatim>\<open>process.env.USDC_TOKEN_ADDRESS ||
  USDC_TOKEN_ADDRESSES[network]\<close>, absent or empty when neither is set), when the treasury
  cannot be set up, when the merchants cannot be listed or when there is none; otherwise
  it runs the loop from an empty \<^verbatim>\<open>results\<close> array.
\<close>

definition runSweepFunds ::
  "'w sweeper \<Rightarrow> string \<Rightarrow> string option \<Rightarrow> string response \<Rightarrow> MerchantInfo list response
   \<Rightarrow> 'w \<Rightarrow> 'w batch option" where
  "runSweepFunds sweepUSDC net usdc treasury listed w =
     (if \<not> truthy usdc then None
      else
          (case treasury of
             Inl err \<Rightarrow> None
           | Inr treasuryAddr \<Rightarrow>
               (case listed of
                  Inl err \<Rightarrow> None
                | Inr merchants \<Rightarrow>
                    if merchants = [] then None
                    else Some (sweepFunds_loop sweepUSDC
                                 \<lparr>env_treasuryAddress = treasuryAddr,
                                  env_usdcTokenAddress = or_else usdc [],
                                  env_network = net\<rparr>
                                 merchants
                                 \<lparr>results = [], world = w, sweep_calls = []\<rparr>))))"

text \<open>All wallets of all merchants, in listing order, each with its merchant.\<close>

definition all_wallets :: "MerchantInfo list \<Rightarrow> (MerchantInfo \<times> merchant_wallet) list" where
  "all_wallets merchants = concat (map (\<lambda>m. map (\<lambda>w. (m, w)) (wallets m)) merchants)"

definition sweepable :: "(MerchantInfo \<times> merchant_wallet) list \<Rightarrow> (MerchantInfo \<times> merchant_wallet) list" where
  "sweepable mws = filter (\<lambda>(m, w). address w \<noteq> ''N/A'') mws"

text \<open>
  What identifies a result entry and a listed wallet (merchant name, address, wallet
  name), and the arguments of the sweep of a listed wallet.
\<close>

definition entry_key :: "sweep_entry \<Rightarrow> string \<times> string \<times> string" where
  "entry_key e = (r_merchantName e, r_walletAddress e, r_walletName e)"

definition wallet_key :: "MerchantInfo \<times> merchant_wallet \<Rightarrow> string \<times> string \<times> string" where
  "wallet_key mw = (subOrganizationName (fst mw), address (snd mw), walletName (snd mw))"

definition args_of :: "command_env \<Rightarrow> MerchantInfo \<times> merchant_wallet \<Rightarrow> sweep_args" where
  "args_of env mw = sweep_args_for env (fst mw) (snd mw)"

text \<open>
  Examples: a merchant with three wallets, the first without a readable address; a
  \<^verbatim>\<open>sweepUSDC\<close> that rejects for wallet \<^verbatim>\<open>w1\<close> and succeeds otherwise, and one that always
  reports insufficient gas. The outside world of the examples counts the calls.
\<close>

definition example_env :: command_env where
  "example_env =
     \<lparr>env_treasuryAddress = ''0xtreasury'', env_usdcTokenAddress = ''0xusdc'',
      env_network = ''sepolia''\<rparr>"

definition example_merchant :: MerchantInfo where
  "example_merchant =
     \<lparr>subOrganizationId = ''sub-b'', subOrganizationName = ''Acme'',
      wallets =
        [\<lparr>walletId = ''w0'', walletName = ''Unreadable'', address = ''N/A''\<rparr>,
         \<lparr>walletId = ''w1'', walletName = ''Acme Wallet'', address = ''0xaaa''\<rparr>,
         \<lparr>walletId = ''w2'', walletName = ''Second'', address = ''0xbbb''\<rparr>],
      policies = []\<rparr>"

definition example_sweeper :: "nat sweeper" where
  "example_sweeper args n =
     (if arg_merchantWalletId args = ''w1'' then (Inl ''network error'', n + 1)
      else (Inr \<lparr>success = True, amount = Some ''0.05'', transactionHash = Some ''0xabc'',
                 error = None\<rparr>, n + 1))"

definition gas_starved_sweeper :: "nat sweeper" where
  "gas_starved_sweeper args n = (Inr (failure_result ''Insufficient ETH for gas fees''), n + 1)"

subsection \<open>One iteration of the scheduled job (commands/scheduledSweep.ts, \<^verbatim>\<open>runSweep\<close>)\<close>

text \<open>
  The closure \<^verbatim>\<open>runSweep\<close> inside \<^verbatim>\<open>runScheduledSweep\<close>. Console lines are a datatype, one
  constructor per kind of line; blank lines, separators and the notice of the next sweep
  are left out, and so are the floating-point totals (\<^verbatim>\<open>iterationSwept\<close>, \<^verbatim>\<open>totalSwept\<close>),
  which only feed the display. The definition is one iteration run from its start to its
  end with no other iteration interleaved at its \<^verbatim>\<open>await\<close>s; the counters are the variables
  that the iterations share, and the summary line reads \<^verbatim>\<open>iterationCount\<close> when it is
  printed.
\<close>

datatype log_line =
    IterationHeader nat
  | NoMerchantsWarning
  | CheckingWallets nat nat
  | SweptLine string string "string option"
  | TransactionLine string
  | WarningLine string string string
  | ErrorLine string string string
  | IterationSummary nat nat
  | NoFundsLine nat
  | IterationError string

record 'w job_state =
  iterationCount :: nat
  totalSuccessful :: nat
  totalSkipped :: nat
  console :: "log_line list"
  job_world :: 'w
  job_calls :: "sweep_args list"

text \<open>
  \<^verbatim>\<open>sweepResult.error && !sweepResult.error.includes("below threshold") &&
  !sweepResult.error.includes("No USDC")\<close>
\<close>

definition logs_error :: "string option \<Rightarrow> bool" where
  "logs_error err =
     (truthy err \<and> \<not> str_includes ''below threshold'' (or_else err [])
      \<and> \<not> str_includes ''No USDC'' (or_else err []))"

text \<open>The body of the loop over wallets; the second component is \<^verbatim>\<open>iterationSuccessful\<close>.\<close>

definition scheduled_wallet ::
  "'w sweeper \<Rightarrow> command_env \<Rightarrow> MerchantInfo \<Rightarrow> 'w job_state \<times> nat \<Rightarrow> merchant_wallet
   \<Rightarrow> 'w job_state \<times> nat" where
  "scheduled_wallet sweepUSDC env merchant acc wallet =
     (let st = fst acc; iterationSuccessful = snd acc in
      if address wallet = ''N/A'' then (st, iterationSuccessful)
      else
        (let args = sweep_args_for env merchant wallet;
             answer = sweepUSDC args (job_world st);
             st1 = st\<lparr>job_world := snd answer, job_calls := job_calls st @ [args]\<rparr>
         in case fst answer of
              Inr sweepResult \<Rightarrow>
                if success sweepResult then
                  (st1\<lparr>console := console st1 @
                         [SweptLine (subOrganizationName merchant) (walletName wallet)
                            (amount sweepResult)] @
                         (if truthy (transactionHash sweepResult)
                          then [TransactionLine (or_else (transactionHash sweepResult) [])]
                          else []),
                       totalSuccessful := totalSuccessful st1 + 1\<rparr>,
                   iterationSuccessful + 1)
                else
                  (st1\<lparr>console := console st1 @
                         (if logs_error (error sweepResult)
                          then [WarningLine (subOrganizationName merchant) (walletName wallet)
                                  (or_else (error sweepResult) [])]
                          else []),
                       totalSkipped := totalSkipped st1 + 1\<rparr>,
                   iterationSuccessful)
            | Inl message \<Rightarrow>
                (st1\<lparr>console := console st1 @
                       [ErrorLine (subOrganizationName merchant) (walletName wallet) message],
                     totalSkipped := totalSkipped st1 + 1\<rparr>,
                 iterationSuccessful)))"

definition scheduled_merchant ::
  "'w sweeper \<Rightarrow> command_env \<Rightarrow> 'w job_state \<times> nat \<Rightarrow> MerchantInfo \<Rightarrow> 'w job_state \<times> nat" where
  "scheduled_merchant sweepUSDC env acc merchant =
     (if wallets merchant = [] then acc
      else foldl (scheduled_wallet sweepUSDC env merchant) acc (wallets merchant))"

definition runSweep ::
  "'w sweeper \<Rightarrow> command_env \<Rightarrow> MerchantInfo list response \<Rightarrow> 'w job_state \<Rightarrow> 'w job_state" where
  "runSweep sweepUSDC env listed st0 =
     (let n = iterationCount st0 + 1;
          st = st0\<lparr>iterationCount := n, console := console st0 @ [IterationHeader n]\<rparr>
      in case listed of
           Inl message \<Rightarrow> st\<lparr>console := console st @ [IterationError message]\<rparr>
         | Inr merchants \<Rightarrow>
             if merchants = [] then st\<lparr>console := console st @ [NoMerchantsWarning]\<rparr>
             else
               (let st1 = st\<lparr>console := console st @
                              [CheckingWallets (length (all_wallets merchants)) (length merchants)]\<rparr>;
                    finished = foldl (scheduled_merchant sweepUSDC env) (st1, 0) merchants;
                    st2 = fst finished;
                    iterationSuccessful = snd finished
                in st2\<lparr>console := console st2 @
                         [if 0 < iterationSuccessful
                          then IterationSummary (iterationCount st2) iterationSuccessful
                          else NoFundsLine (iterationCount st2)]\<rparr>))"

subsection \<open>The timer and the stop signal (\<^verbatim>\<open>runScheduledSweep\<close>)\<close>

text \<open>
  \<^verbatim>\<open>
  await runSweep();
  const intervalId = setInterval(async () => { await runSweep(); }, intervalMs);
  const shutdown = () => { clearInterval(intervalId); ...summary...; process.exit(0); };
  process.on("SIGINT", shutdown);
  process.on("SIGTERM", shutdown);
  \<close>
  The job is an event-driven machine on the single-threaded event loop. An iteration is
  in flight from the call of \<^verbatim>\<open>runSweep\<close> (which counts it at once) until its promise
  settles; in between it is suspended at an \<^verbatim>\<open>await\<close>, where other events are served.
  The events are: the timer fires; an iteration in flight runs to its end; a stop signal
  arrives. While the first iteration is awaited there is neither a timer nor a handler,
  so a stop signal has the runtime's default effect and ends the process without a
  summary. Afterwards the timer callback calls \<^verbatim>\<open>runSweep\<close> on every tick, and
  \<^verbatim>\<open>shutdown\<close> clears the timer, prints the summary and exits the process at once; the
  iterations in flight at that moment are abandoned.
\<close>

datatype job_phase = FirstRun | Scheduled | Exited

datatype job_event = Tick | IterationDone | StopSignal

record job =
  phase :: job_phase
  iterations_started :: nat
  in_flight :: nat
  summary_printed :: bool
  abandoned :: nat

definition job_start :: job where
  "job_start =
     \<lparr>phase = FirstRun, iterations_started = 1, in_flight = 1, summary_printed = False,
      abandoned = 0\<rparr>"

fun job_step :: "job \<Rightarrow> job_event \<Rightarrow> job" where
  "job_step j Tick =
     (if phase j = Scheduled
      then j\<lparr>iterations_started := iterations_started j + 1, in_flight := in_flight j + 1\<rparr>
      else j)"
| "job_step j IterationDone =
     (if phase j = Exited \<or> in_flight j = 0 then j
      else if phase j = FirstRun then j\<lparr>phase := Scheduled, in_flight := in_flight j - 1\<rparr>
      else j\<lparr>in_flight := in_flight j - 1\<rparr>)"
| "job_step j StopSignal =
     (if phase j = Exited then j
      else if phase j = FirstRun
      then j\<lparr>phase := Exited, abandoned := in_flight j, in_flight := 0\<rparr>
      else j\<lparr>phase := Exited, summary_printed := True, abandoned := in_flight j, in_flight := 0\<rparr>)"

definition job_run :: "job \<Rightarrow> job_event list \<Rightarrow> job" where
  "job_run j evs = foldl job_step j evs"

text \<open>The largest number of iterations in flight at any moment of a run.\<close>

fun max_in_flight :: "job \<Rightarrow> job_event list \<Rightarrow> nat" where
  "max_in_flight j [] = in_flight j"
| "max_in_flight j (e # es) = max (in_flight j) (max_in_flight (job_step j e) es)"

text \<open>Every tick of the run arrives when no iteration is in flight.\<close>

fun ticks_spaced :: "job \<Rightarrow> job_event list \<Rightarrow> bool" where
  "ticks_spaced j [] = True"
| "ticks_spaced j (e # es) = ((e = Tick \<longrightarrow> in_flight j = 0) \<and> ticks_spaced (job_step j e) es)"

section \<open>Properties\<close>

subsection \<open>The policy condition: decoding what compile emits, and anything else\<close>

lemma prefix_amp: "prefix (x # CHR ''&'' # xs) a \<Longrightarrow> CHR ''&'' \<in> set a"
  by (auto dest: set_mono_prefix)

lemma split_go_no_amp:
  "CHR ''&'' \<notin> set a \<Longrightarrow> split_go '' && '' acc a = [rev acc @ a]"
proof (induction a arbitrary: acc)
  case Nil
  then show ?case by simp
next
  case (Cons c a)
  have "\<not> prefix '' && '' (c # a)"
    using Cons.prems prefix_amp [of "CHR '' ''" "''& ''" "c # a"] by blast
  then show ?case using Cons by simp
qed

lemma split_go_first:
  "CHR ''&'' \<notin> set a \<Longrightarrow>
   split_go '' && '' acc (a @ '' && '' @ rest) = (rev acc @ a) # split_go '' && '' [] rest"
proof (induction a arbitrary: acc)
  case Nil
  then show ?case by simp
next
  case (Cons c a)
  have "\<not> prefix '' && '' (c # a @ '' && '' @ rest)"
    using Cons.prems by (cases a) auto
  then show ?case using Cons by simp
qed

lemma trim_id:
  "s \<noteq> [] \<Longrightarrow> \<not> is_space (hd s) \<Longrightarrow> \<not> is_space (last s) \<Longrightarrow> trim s = s"
proof -
  assume a: "s \<noteq> []" "\<not> is_space (hd s)" "\<not> is_space (last s)"
  then have 1: "dropWhile is_space s = s" by (cases s) auto
  have "rev s \<noteq> []" "\<not> is_space (hd (rev s))" using a by (auto simp: hd_rev)
  then have 2: "dropWhile is_space (rev s) = rev s" by (cases "rev s") auto
  show ?thesis by (simp add: trim_def 1 2)
qed

lemma str_includes_absent:
  "c \<in> set sub \<Longrightarrow> c \<notin> set s \<Longrightarrow> \<not> str_includes sub s"
proof (induction s)
  case Nil
  then show ?case by auto
next
  case (Cons a s)
  have "\<not> prefix sub (a # s)"
  proof
    assume "prefix sub (a # s)"
    then have "set sub \<subseteq> set (a # s)" by (rule set_mono_prefix)
    with Cons.prems show False by auto
  qed
  with Cons show ?case by simp
qed

lemma match_at_hit:
  "quote \<notin> set body \<Longrightarrow> body \<noteq> [] \<Longrightarrow>
   match_at pre (pre @ body @ quote # rest) = Some body"
  by (simp add: match_at_def Let_def takeWhile_append dropWhile_append)

lemma re_match_hit:
  "quote \<notin> set body \<Longrightarrow> body \<noteq> [] \<Longrightarrow>
   re_match pre (pre @ body @ quote # rest) = Some body"
proof (cases "pre @ body @ quote # rest")
  case Nil
  then show ?thesis by simp
next
  case (Cons c cs)
  assume "quote \<notin> set body" "body \<noteq> []"
  then have "match_at pre (c # cs) = Some body"
    using match_at_hit [of body pre rest] by (simp add: Cons)
  then have "re_match pre (c # cs) = Some body" by simp
  then show ?thesis by (simp add: Cons)
qed

lemma addr_char_facts:
  "addr_char c \<Longrightarrow> c \<noteq> quote \<and> c \<noteq> CHR ''&'' \<and> c \<noteq> CHR ''t'' \<and> c \<noteq> CHR ''o'' \<and> \<not> is_space c"
  by (auto simp: addr_char_def is_hex_digit_def quote_def is_space_def)

lemma decode_txto:
  assumes "list_all addr_char a" "a \<noteq> []"
  shows "decode_part (''eth.tx.to == '' @ [quote] @ a @ [quote]) = TxTo a"
proof -
  have q: "quote \<notin> set a" using assms(1) addr_char_facts by (auto simp: list_all_iff)
  have "re_match (''eth.tx.to == '' @ [quote]) ((''eth.tx.to == '' @ [quote]) @ a @ quote # []) = Some a"
    using q assms(2) by (rule re_match_hit)
  then show ?thesis by (simp add: decode_part_def)
qed

lemma decode_selector:
  "decode_part (''eth.tx.data[2..10] == '' @ [quote] @ ''a9059cbb'' @ [quote]) = Selector ''a9059cbb''"
  by (simp add: decode_part_def match_at_def quote_def)

lemma decode_dest:
  assumes "list_all addr_char p" "p \<noteq> []"
  shows "decode_part (''eth.tx.data[10..74] == '' @ [quote] @ p @ [quote])
         = TransferDest p (''0x'' @ slice_last 40 p)"
proof -
  have q: "quote \<notin> set p" using assms(1) addr_char_facts by (auto simp: list_all_iff)
  have t: "CHR ''t'' \<notin> set (p @ [quote])" "CHR ''o'' \<notin> set (p @ [quote])"
    using assms(1) addr_char_facts by (auto simp: list_all_iff quote_def)
  have i1: "\<not> str_includes ''eth.tx.to =='' (p @ [quote])"
    by (rule str_includes_absent [of "CHR ''t''"]) (use t in auto)
  have i2: "\<not> str_includes ''eth.tx.data[2..10] =='' (p @ [quote])"
    by (rule str_includes_absent [of "CHR ''t''"]) (use t in auto)
  have "re_match (''eth.tx.data[10..74] == '' @ [quote])
          ((''eth.tx.data[10..74] == '' @ [quote]) @ p @ quote # []) = Some p"
    using q assms(2) by (rule re_match_hit)
  then show ?thesis using i1 i2 by (simp add: decode_part_def quote_def)
qed

lemma format_part_decode:
  "format_part fa idx part =
     (case decode_part part of
        TxTo a \<Rightarrow>
          [''   '' @ show_nat (idx + 1) @ ''. Transaction Destination:'',
           ''      eth.tx.to == '' @ [quote] @ a @ [quote],
           ''      '' @ arrow @ '' Must be to USDC token contract ('' @ fa a @ '')'']
      | Selector sel \<Rightarrow>
          [''   '' @ show_nat (idx + 1) @ ''. Function Selector:'',
           ''      eth.tx.data[2..10] == '' @ [quote] @ sel @ [quote],
           ''      '' @ arrow @ '' ERC-20 transfer() function (0x'' @ sel @ '')'']
      | TransferDest padded actual \<Rightarrow>
          [''   '' @ show_nat (idx + 1) @ ''. Transfer Destination:'',
           ''      eth.tx.data[10..74] == '' @ [quote] @ padded @ [quote],
           ''      '' @ arrow @ '' Treasury address: '' @ fa actual]
      | Unrecognized p \<Rightarrow> [generic_line idx p])"
  by (simp add: format_part_def decode_part_def Let_def split: option.split)

lemma foldl_append_concat:
  "foldl (\<lambda>acc x. acc @ f x) acc xs = acc @ concat (map f xs)"
  by (induction xs arbitrary: acc) simp_all

lemma formatCondition_concat:
  "formatCondition fa c =
     (if c = [] then []
      else concat (map (\<lambda>(idx, part). format_part fa idx part)
                     (zip [0 ..< length (condition_parts c)] (condition_parts c))))"
proof -
  have "(\<lambda>formatted (idx, part). formatted @ format_part fa idx part)
        = (\<lambda>formatted x. formatted @ (\<lambda>(idx, part). format_part fa idx part) x)"
    by (auto simp: fun_eq_iff)
  then show ?thesis
    by (simp add: formatCondition_def Let_def foldl_append_concat)
qed

lemma hex_addr_char: "is_hex_digit c \<Longrightarrow> addr_char c"
  by (simp add: addr_char_def)

lemma wf_addr_chars:
  assumes "well_formed_address a"
  shows "list_all addr_char a" "list_all addr_char (drop 2 a)" "length a = 42" "a = ''0x'' @ drop 2 a"
proof -
  have l: "length a = 42" and p: "take 2 a = ''0x''" and h: "list_all is_hex_digit (drop 2 a)"
    using assms by (auto simp: well_formed_address_def)
  have "take 2 a @ drop 2 a = a" by (rule append_take_drop_id)
  then have e: "''0x'' @ drop 2 a = a" by (simp only: p)
  show "a = ''0x'' @ drop 2 a" by (rule e [symmetric])
  show 2: "list_all addr_char (drop 2 a)"
    using h hex_addr_char unfolding list_all_iff by blast
  have "list_all addr_char (''0x'' @ drop 2 a)" using 2 by (simp add: addr_char_def is_hex_digit_def)
  then show "list_all addr_char a" by (simp only: e)
  show "length a = 42" by (rule l)
qed


lemma hex_val_lower: "hex_val (lower_char c) = hex_val c"
proof -
  have "of_char (char_of (of_char c + 32 :: nat) :: char) = ((of_char c + 32) mod 256 :: nat)"
    by (simp only: of_char_of)
  then show ?thesis
    unfolding hex_val_def lower_char_def Let_def by auto
qed

lemma addr_value_lower: "addr_value (toLowerCase a) = addr_value a"
proof -
  have "(\<lambda>v c. 16 * v + hex_val (lower_char c)) = (\<lambda>v c. 16 * v + hex_val c)"
    by (simp add: hex_val_lower)
  then show ?thesis
    by (simp add: addr_value_def toLowerCase_def drop_map foldl_map)
qed

lemma clause_shape:
  assumes "list_all addr_char a"
  shows "CHR ''&'' \<notin> set (clause1 a)" "CHR ''&'' \<notin> set (clause3 a)"
        "trim (clause1 a) = clause1 a" "trim (clause3 a) = clause3 a"
proof -
  have n: "CHR ''&'' \<notin> set a" using assms addr_char_facts by (auto simp: list_all_iff)
  show "CHR ''&'' \<notin> set (clause1 a)" using n by (simp add: clause1_def quote_def)
  show "CHR ''&'' \<notin> set (clause3 a)" using n by (simp add: clause3_def quote_def)
  show "trim (clause1 a) = clause1 a"
    by (rule trim_id) (simp_all add: clause1_def is_space_def quote_def)
  show "trim (clause3 a) = clause3 a"
    by (rule trim_id) (simp_all add: clause3_def is_space_def quote_def)
qed

lemma clause2_shape: "CHR ''&'' \<notin> set clause2" "trim clause2 = clause2"
  by (simp_all add: clause2_def quote_def trim_def is_space_def)

lemma parts_of_three:
  assumes "list_all addr_char a" "list_all addr_char p"
  shows "condition_parts (clause1 a @ '' && '' @ clause2 @ '' && '' @ clause3 p)
         = [clause1 a, clause2, clause3 p]"
proof -
  have 1: "split_go '' && '' [] (clause1 a @ '' && '' @ (clause2 @ '' && '' @ clause3 p))
           = (rev [] @ clause1 a) # split_go '' && '' [] (clause2 @ '' && '' @ clause3 p)"
    by (rule split_go_first) (rule clause_shape(1) [OF assms(1)])
  have 2: "split_go '' && '' [] (clause2 @ '' && '' @ clause3 p)
           = (rev [] @ clause2) # split_go '' && '' [] (clause3 p)"
    by (rule split_go_first) (rule clause2_shape(1))
  have 3: "split_go '' && '' [] (clause3 p) = [rev [] @ clause3 p]"
    by (rule split_go_no_amp) (rule clause_shape(2) [OF assms(2)])
  show ?thesis
    unfolding condition_parts_def split_def
    by (simp only: 1 2 3 list.map clause_shape(3) [OF assms(1)] clause_shape(4) [OF assms(2)]
          clause2_shape(2) rev.simps append_Nil)
qed

lemma policy_condition_clauses:
  "policy_condition t p = clause1 (toLowerCase t) @ '' && '' @ clause2 @ '' && '' @ clause3 p"
  by (simp add: policy_condition_def clause1_def clause2_def clause3_def)

lemma padded_facts:
  assumes "well_formed_address (toLowerCase d)"
  shows "list_all addr_char (treasuryAddressPadded d)"
        "treasuryAddressPadded d \<noteq> []"
        "''0x'' @ slice_last 40 (treasuryAddressPadded d) = toLowerCase d"
proof -
  let ?b = "toLowerCase d"
  have h: "list_all addr_char (drop 2 ?b)" and l: "length ?b = 42" and e: "?b = ''0x'' @ drop 2 ?b"
    using wf_addr_chars [OF assms] by blast+
  have z: "list_all addr_char (replicate 24 (CHR ''0''))"
    by (simp add: list_all_iff addr_char_def is_hex_digit_def)
  show "list_all addr_char (treasuryAddressPadded d)"
    using h z by (simp add: treasuryAddressPadded_def)
  show "treasuryAddressPadded d \<noteq> []" by (simp add: treasuryAddressPadded_def)
  have "slice_last 40 (treasuryAddressPadded d) = drop 2 ?b"
    using l by (simp add: slice_last_def treasuryAddressPadded_def)
  then show "''0x'' @ slice_last 40 (treasuryAddressPadded d) = ?b"
    using e by simp
qed

lemma decompile_compiled:
  assumes "well_formed_address (toLowerCase t)" "well_formed_address (toLowerCase d)"
  shows "map decode_part (condition_parts (policy_condition t (treasuryAddressPadded d)))
         = [TxTo (toLowerCase t), Selector ''a9059cbb'',
            TransferDest (treasuryAddressPadded d) (toLowerCase d)]"
proof -
  let ?a = "toLowerCase t" and ?p = "treasuryAddressPadded d"
  have a: "list_all addr_char ?a" and an: "?a \<noteq> []"
    using wf_addr_chars(1,3) [OF assms(1)] by auto
  have p: "list_all addr_char ?p" and pn: "?p \<noteq> []"
    and rec: "''0x'' @ slice_last 40 ?p = toLowerCase d"
    using padded_facts [OF assms(2)] by blast+
  have parts: "condition_parts (policy_condition t ?p) = [clause1 ?a, clause2, clause3 ?p]"
    by (simp only: policy_condition_clauses parts_of_three [OF a p])
  have d1: "decode_part (clause1 ?a) = TxTo ?a"
    unfolding clause1_def by (rule decode_txto [OF a an])
  have d2: "decode_part clause2 = Selector ''a9059cbb''"
    unfolding clause2_def by (rule decode_selector)
  have d3: "decode_part (clause3 ?p) = TransferDest ?p (toLowerCase d)"
    unfolding clause3_def using decode_dest [OF p pn] rec by simp
  show ?thesis by (simp only: parts list.map d1 d2 d3)
qed

lemma upt_three: "[0 ..< 3] = [0, 1, 2]"
  by (simp add: upt_rec)

lemma show_nat_small:
  "show_nat (Suc 0) = ''1''" "show_nat (Suc (Suc 0)) = ''2''" "show_nat (Suc (Suc (Suc 0))) = ''3''"
  by (simp_all add: show_nat.simps digit_char_def)

text \<open>
  Claim C2, as the code has it. For all addresses \<open>t\<close> and \<open>d\<close> that are well-formed
  20-byte addresses (the check that compile makes, after lower-casing), compile succeeds
  and decoding its result recovers the lower-cased token address, the lower-cased
  destination address and the fixed selector \<^verbatim>\<open>a9059cbb\<close>: the decoded clauses are the
  target clause, the selector clause and the argument clause whose 24 digits of padding
  are stripped. The lower-case spelling denotes the same 160-bit value as the input. The
  lines that \<^verbatim>\<open>formatCondition\<close> renders show the same three decoded values.
\<close>

theorem compile_decompile_roundtrip:
  assumes "well_formed_address (toLowerCase t)" and "well_formed_address (toLowerCase d)"
  shows "\<exists>c. compile t d = Inr c
           \<and> decompile c = Some (toLowerCase t, toLowerCase d, ''a9059cbb'')
           \<and> addr_value (toLowerCase t) = addr_value t
           \<and> addr_value (toLowerCase d) = addr_value d
           \<and> formatCondition fa c =
               [''   1. Transaction Destination:'',
                ''      eth.tx.to == '' @ [quote] @ toLowerCase t @ [quote],
                ''      '' @ arrow @ '' Must be to USDC token contract ('' @ fa (toLowerCase t) @ '')'',
                ''   2. Function Selector:'',
                ''      eth.tx.data[2..10] == '' @ [quote] @ ''a9059cbb'' @ [quote],
                ''      '' @ arrow @ '' ERC-20 transfer() function (0xa9059cbb)'',
                ''   3. Transfer Destination:'',
                ''      eth.tx.data[10..74] == '' @ [quote] @ treasuryAddressPadded d @ [quote],
                ''      '' @ arrow @ '' Treasury address: '' @ fa (toLowerCase d)]"
proof -
  let ?c = "policy_condition t (treasuryAddressPadded d)"
  have c: "compile t d = Inr ?c" using assms by (simp add: compile_def)
  have dec: "map decode_part (condition_parts ?c)
             = [TxTo (toLowerCase t), Selector ''a9059cbb'',
                TransferDest (treasuryAddressPadded d) (toLowerCase d)]"
    by (rule decompile_compiled [OF assms])
  have len: "length (condition_parts ?c) = 3"
    using arg_cong [OF dec, of length] by simp
  then obtain p1 p2 p3 where ps: "condition_parts ?c = [p1, p2, p3]"
    by (auto simp: length_Suc_conv numeral_3_eq_3)
  have ds: "decode_part p1 = TxTo (toLowerCase t)" "decode_part p2 = Selector ''a9059cbb''"
    "decode_part p3 = TransferDest (treasuryAddressPadded d) (toLowerCase d)"
    using dec by (simp_all add: ps)
  have ne: "?c \<noteq> []" by (simp add: policy_condition_def)
  have dc: "decompile ?c = Some (toLowerCase t, toLowerCase d, ''a9059cbb'')"
    by (simp add: decompile_def dec)
  have fc: "formatCondition fa ?c =
               [''   1. Transaction Destination:'',
                ''      eth.tx.to == '' @ [quote] @ toLowerCase t @ [quote],
                ''      '' @ arrow @ '' Must be to USDC token contract ('' @ fa (toLowerCase t) @ '')'',
                ''   2. Function Selector:'',
                ''      eth.tx.data[2..10] == '' @ [quote] @ ''a9059cbb'' @ [quote],
                ''      '' @ arrow @ '' ERC-20 transfer() function (0xa9059cbb)'',
                ''   3. Transfer Destination:'',
                ''      eth.tx.data[10..74] == '' @ [quote] @ treasuryAddressPadded d @ [quote],
                ''      '' @ arrow @ '' Treasury address: '' @ fa (toLowerCase d)]"
    using ne by (simp add: formatCondition_concat ps upt_three format_part_decode ds show_nat_small)
  show ?thesis
    using c dc fc addr_value_lower [of t] addr_value_lower [of d] by simp
qed

theorem compile_decompile_roundtrip_witness:
  "well_formed_address (toLowerCase ''0x1c7D4B196Cb0C7B01d743Fbc6116a902379C7238'')
   \<and> well_formed_address (toLowerCase ''0x1234567890ABCDEF1234567890abcdef12345678'')
   \<and> (\<exists>c. compile ''0x1c7D4B196Cb0C7B01d743Fbc6116a902379C7238''
              ''0x1234567890ABCDEF1234567890abcdef12345678'' = Inr c
          \<and> decompile c = Some (''0x1c7d4b196cb0c7b01d743fbc6116a902379c7238'',
                                 ''0x1234567890abcdef1234567890abcdef12345678'', ''a9059cbb''))"
proof -
  have t: "toLowerCase ''0x1c7D4B196Cb0C7B01d743Fbc6116a902379C7238''
           = ''0x1c7d4b196cb0c7b01d743fbc6116a902379c7238''"
    by code_simp
  have d: "toLowerCase ''0x1234567890ABCDEF1234567890abcdef12345678''
           = ''0x1234567890abcdef1234567890abcdef12345678''"
    by code_simp
  have wt: "well_formed_address (toLowerCase ''0x1c7D4B196Cb0C7B01d743Fbc6116a902379C7238'')"
    by code_simp
  have wd: "well_formed_address (toLowerCase ''0x1234567890ABCDEF1234567890abcdef12345678'')"
    by code_simp
  from compile_decompile_roundtrip [OF wt wd, of id] obtain c where
    "compile ''0x1c7D4B196Cb0C7B01d743Fbc6116a902379C7238''
       ''0x1234567890ABCDEF1234567890abcdef12345678'' = Inr c"
    "decompile c = Some (toLowerCase ''0x1c7D4B196Cb0C7B01d743Fbc6116a902379C7238'',
                         toLowerCase ''0x1234567890ABCDEF1234567890abcdef12345678'', ''a9059cbb'')"
    by blast
  then show ?thesis using wt wd by (simp only: t d) blast
qed

text \<open>
  Claim C2 as stated, with equality of the address strings, fails for an address that
  is not spelled in lower case: the token address comes back lower-cased.
\<close>

theorem roundtrip_spelling_counterexample:
  "compile ''0x1c7D4B196Cb0C7B01d743Fbc6116a902379C7238''
      ''0x1234567890abcdef1234567890abcdef12345678''
     = Inr (policy_condition ''0x1c7D4B196Cb0C7B01d743Fbc6116a902379C7238''
              (treasuryAddressPadded ''0x1234567890abcdef1234567890abcdef12345678''))
   \<and> decompile (policy_condition ''0x1c7D4B196Cb0C7B01d743Fbc6116a902379C7238''
                  (treasuryAddressPadded ''0x1234567890abcdef1234567890abcdef12345678''))
       = Some (''0x1c7d4b196cb0c7b01d743fbc6116a902379c7238'',
               ''0x1234567890abcdef1234567890abcdef12345678'', ''a9059cbb'')
   \<and> ''0x1c7d4b196cb0c7b01d743fbc6116a902379c7238''
       \<noteq> ''0x1c7D4B196Cb0C7B01d743Fbc6116a902379C7238''"
proof -
  have 1: "compile ''0x1c7D4B196Cb0C7B01d743Fbc6116a902379C7238''
      ''0x1234567890abcdef1234567890abcdef12345678''
     = Inr (policy_condition ''0x1c7D4B196Cb0C7B01d743Fbc6116a902379C7238''
              (treasuryAddressPadded ''0x1234567890abcdef1234567890abcdef12345678''))"
    by code_simp
  have 2: "decompile (policy_condition ''0x1c7D4B196Cb0C7B01d743Fbc6116a902379C7238''
                  (treasuryAddressPadded ''0x1234567890abcdef1234567890abcdef12345678''))
       = Some (''0x1c7d4b196cb0c7b01d743fbc6116a902379c7238'',
               ''0x1234567890abcdef1234567890abcdef12345678'', ''a9059cbb'')"
    by code_simp
  show ?thesis using 1 2 by simp
qed


lemma decode_unrecognized: "decode_part part = Unrecognized q \<Longrightarrow> q = part"
  by (auto simp: decode_part_def split: if_splits option.splits)















subsection \<open>The sweep of one wallet\<close>

lemma sweep_kind:
  "kind (outcome_of (sweep cfg collab acct)) =
     (if token_balance acct = 0 then NoBalance
      else if token_balance acct < threshold cfg then BelowThreshold
      else if native_balance acct < minGas cfg then InsufficientGas
      else case sign_result collab of
             Inl Rejected \<Rightarrow> SigningRejected
           | Inl Unavailable \<Rightarrow> SigningUnavailable
           | Inr txId \<Rightarrow>
               (case confirm_result collab of
                  Confirmed \<Rightarrow> Success
                | Reverted \<Rightarrow> TransactionFailed
                | Unobservable landed \<Rightarrow> ConfirmationUnknown))"
  by (simp add: sweep_def outcome_of_def skipped_def Let_def
           split: sum.split signer_failure.split confirmation.split)

lemma sweep_skip_effects:
  "is_skip (kind (outcome_of (sweep cfg collab acct))) \<Longrightarrow>
   \<not> issues_transaction (calls_of (sweep cfg collab acct))
   \<and> transaction_id (outcome_of (sweep cfg collab acct)) = None
   \<and> sweep_amount (outcome_of (sweep cfg collab acct)) = None
   \<and> account_after (sweep cfg collab acct) = acct"
  by (auto simp: sweep_def outcome_of_def calls_of_def account_after_def skipped_def Let_def
                 is_skip_def issues_transaction_def
           split: sum.splits signer_failure.splits confirmation.splits if_splits)

lemma sweep_amount_populated:
  "(sweep_amount (outcome_of (sweep cfg collab acct)) = None)
   = is_skip (kind (outcome_of (sweep cfg collab acct)))"
  by (simp add: sweep_def outcome_of_def skipped_def Let_def is_skip_def
           split: sum.split signer_failure.split confirmation.split)


text \<open>
  Claim C4, as the code has it. Given sufficient gas, for all token balances \<open>b\<close> and
  thresholds \<open>k\<close>: the outcome is a skip exactly when \<open>b = 0\<close> (and then it is NoBalance)
  or \<open>0 < b < k\<close> (and then it is BelowThreshold); for \<open>b \<ge> k\<close> with \<open>b > 0\<close> it is never a
  skip; and a skip issues no transaction, carries no transaction id and leaves the
  account as it was.
\<close>

theorem sweep_skips_by_balance_and_threshold:
  assumes "minGas cfg \<le> native_balance acct"
  shows "(is_skip (kind (outcome_of (sweep cfg collab acct)))
            = (token_balance acct = 0 \<or> token_balance acct < threshold cfg))
     \<and> ((kind (outcome_of (sweep cfg collab acct)) = NoBalance) = (token_balance acct = 0))
     \<and> ((kind (outcome_of (sweep cfg collab acct)) = BelowThreshold)
            = (0 < token_balance acct \<and> token_balance acct < threshold cfg))
     \<and> (threshold cfg \<le> token_balance acct \<and> 0 < token_balance acct
            \<longrightarrow> \<not> is_skip (kind (outcome_of (sweep cfg collab acct))))
     \<and> (is_skip (kind (outcome_of (sweep cfg collab acct)))
            \<longrightarrow> \<not> issues_transaction (calls_of (sweep cfg collab acct))
                \<and> transaction_id (outcome_of (sweep cfg collab acct)) = None
                \<and> account_after (sweep cfg collab acct) = acct)"
proof -
  have k: "is_skip (kind (outcome_of (sweep cfg collab acct)))
            = (token_balance acct = 0 \<or> token_balance acct < threshold cfg)"
    using assms
    by (auto simp: sweep_kind is_skip_def
             split: sum.splits signer_failure.splits confirmation.splits)
  have n: "(kind (outcome_of (sweep cfg collab acct)) = NoBalance) = (token_balance acct = 0)"
    using assms
    by (auto simp: sweep_kind split: sum.splits signer_failure.splits confirmation.splits)
  have b: "(kind (outcome_of (sweep cfg collab acct)) = BelowThreshold)
            = (0 < token_balance acct \<and> token_balance acct < threshold cfg)"
    using assms
    by (auto simp: sweep_kind split: sum.splits signer_failure.splits confirmation.splits)
  have g: "threshold cfg \<le> token_balance acct \<and> 0 < token_balance acct
            \<longrightarrow> \<not> is_skip (kind (outcome_of (sweep cfg collab acct)))"
    unfolding k by auto
  show ?thesis using k n b g sweep_skip_effects [of cfg collab acct] by blast
qed

theorem sweep_skips_by_balance_and_threshold_witness:
  "minGas example_config \<le> native_balance \<lparr>native_balance = 10000000000000000, token_balance = 0\<rparr>
   \<and> kind (outcome_of (sweep example_config example_collaborators
              \<lparr>native_balance = 10000000000000000, token_balance = 0\<rparr>)) = NoBalance
   \<and> kind (outcome_of (sweep example_config example_collaborators
              \<lparr>native_balance = 10000000000000000, token_balance = 20000\<rparr>)) = BelowThreshold
   \<and> \<not> issues_transaction (calls_of (sweep example_config example_collaborators
              \<lparr>native_balance = 10000000000000000, token_balance = 20000\<rparr>))
   \<and> threshold example_config \<le> 50000
   \<and> \<not> is_skip (kind (outcome_of (sweep example_config example_collaborators
              \<lparr>native_balance = 10000000000000000, token_balance = 50000\<rparr>)))"
proof -
  have g: "minGas example_config \<le> native_balance \<lparr>native_balance = 10000000000000000, token_balance = b\<rparr>"
    for b by (simp add: example_config_def)
  note t = sweep_skips_by_balance_and_threshold
             [where cfg = example_config and collab = example_collaborators, OF g]
  have 1: "kind (outcome_of (sweep example_config example_collaborators
              \<lparr>native_balance = 10000000000000000, token_balance = 0\<rparr>)) = NoBalance"
    using t [of 0] by auto
  have 2: "kind (outcome_of (sweep example_config example_collaborators
              \<lparr>native_balance = 10000000000000000, token_balance = 20000\<rparr>)) = BelowThreshold"
    using t [of 20000] by (auto simp: example_config_def)
  have 3: "\<not> issues_transaction (calls_of (sweep example_config example_collaborators
              \<lparr>native_balance = 10000000000000000, token_balance = 20000\<rparr>))"
    using t [of 20000] by (auto simp: example_config_def)
  have 4: "\<not> is_skip (kind (outcome_of (sweep example_config example_collaborators
              \<lparr>native_balance = 10000000000000000, token_balance = 50000\<rparr>)))"
    using t [of 50000] by (auto simp: example_config_def)
  show ?thesis using g [of 0] 1 2 3 4 by (simp add: example_config_def)
qed

text \<open>
  Claim C4 as stated fails where the threshold is zero (\<^verbatim>\<open>SWEEP_THRESHOLD_USDC=0\<close>): a
  balance of zero is then not below the threshold, and with sufficient gas the outcome
  is still the skip NoBalance.
\<close>

theorem zero_balance_zero_threshold_counterexample:
  "threshold \<lparr>threshold = 0, minGas = 1000000000000000\<rparr>
     \<le> token_balance \<lparr>native_balance = 10000000000000000, token_balance = 0\<rparr>
   \<and> minGas \<lparr>threshold = 0, minGas = 1000000000000000\<rparr>
     \<le> native_balance \<lparr>native_balance = 10000000000000000, token_balance = 0\<rparr>
   \<and> is_skip (kind (outcome_of (sweep \<lparr>threshold = 0, minGas = 1000000000000000\<rparr>
                 example_collaborators
                 \<lparr>native_balance = 10000000000000000, token_balance = 0\<rparr>)))"
  by (simp add: sweep_def outcome_of_def skipped_def is_skip_def)




subsection \<open>The loops of the two commands\<close>

lemma wallet_step_calls:
  "sweep_calls (sweepFunds_wallet f env m st w)
   = sweep_calls st @ (if address w = ''N/A'' then [] else [sweep_args_for env m w])"
  by (simp add: sweepFunds_wallet_def push_entry_def Let_def split: sum.split)

lemma wallet_step_keys:
  "map entry_key (results (sweepFunds_wallet f env m st w))
   = map entry_key (results st) @ [(subOrganizationName m, address w, walletName w)]"
  by (simp add: sweepFunds_wallet_def push_entry_def Let_def entry_key_def split: sum.split)

lemma wallets_fold_calls:
  "sweep_calls (foldl (sweepFunds_wallet f env m) st ws)
   = sweep_calls st @ map (sweep_args_for env m) (filter (\<lambda>w. address w \<noteq> ''N/A'') ws)"
proof (induction ws arbitrary: st)
  case Nil
  then show ?case by simp
next
  case (Cons w ws)
  show ?case
    by (simp add: Cons.IH [of "sweepFunds_wallet f env m st w"] wallet_step_calls)
qed

lemma wallets_fold_keys:
  "map entry_key (results (foldl (sweepFunds_wallet f env m) st ws))
   = map entry_key (results st) @ map (\<lambda>w. (subOrganizationName m, address w, walletName w)) ws"
proof (induction ws arbitrary: st)
  case Nil
  then show ?case by simp
next
  case (Cons w ws)
  show ?case
    by (simp add: Cons.IH [of "sweepFunds_wallet f env m st w"] wallet_step_keys)
qed

lemma merchant_calls:
  "sweep_calls (sweepFunds_merchant f env st m)
   = sweep_calls st @ map (args_of env) (sweepable (map (\<lambda>w. (m, w)) (wallets m)))"
  by (simp add: sweepFunds_merchant_def wallets_fold_calls sweepable_def args_of_def
        filter_map comp_def)

lemma merchant_keys:
  "map entry_key (results (sweepFunds_merchant f env st m))
   = map entry_key (results st) @ map wallet_key (map (\<lambda>w. (m, w)) (wallets m))"
  by (simp add: sweepFunds_merchant_def wallets_fold_keys wallet_key_def comp_def)

lemma sweepable_append: "sweepable (xs @ ys) = sweepable xs @ sweepable ys"
  by (simp add: sweepable_def)

lemma loop_calls:
  "sweep_calls (sweepFunds_loop f env ms st)
   = sweep_calls st @ map (args_of env) (sweepable (all_wallets ms))"
  unfolding sweepFunds_loop_def
proof (induction ms arbitrary: st)
  case Nil
  then show ?case by (simp add: all_wallets_def sweepable_def)
next
  case (Cons m ms)
  have a: "all_wallets (m # ms) = map (\<lambda>w. (m, w)) (wallets m) @ all_wallets ms"
    by (simp add: all_wallets_def)
  show ?case
    by (simp add: Cons.IH [of "sweepFunds_merchant f env st m"] merchant_calls a sweepable_append)
qed

lemma loop_keys:
  "map entry_key (results (sweepFunds_loop f env ms st))
   = map entry_key (results st) @ map wallet_key (all_wallets ms)"
  unfolding sweepFunds_loop_def
proof (induction ms arbitrary: st)
  case Nil
  then show ?case by (simp add: all_wallets_def)
next
  case (Cons m ms)
  have a: "all_wallets (m # ms) = map (\<lambda>w. (m, w)) (wallets m) @ all_wallets ms"
    by (simp add: all_wallets_def)
  show ?case
    by (simp add: Cons.IH [of "sweepFunds_merchant f env st m"] merchant_keys a)
qed

lemma loop_append:
  "sweepFunds_loop f env (ms1 @ ms2) st = sweepFunds_loop f env ms2 (sweepFunds_loop f env ms1 st)"
  by (simp add: sweepFunds_loop_def)

lemma runSweepFunds_None:
  "(runSweepFunds f net usdc treasury listed w0 = None)
   = (or_else usdc [] = [] \<or> isl treasury \<or> isl listed \<or> listed = Inr [])"
  by (auto simp: runSweepFunds_def truthy_def or_else_def split: option.splits sum.splits)

lemma sched_wallet_calls:
  "job_calls (fst (scheduled_wallet f env m acc w))
   = job_calls (fst acc) @ (if address w = ''N/A'' then [] else [sweep_args_for env m w])"
  by (simp add: scheduled_wallet_def Let_def split: sum.split)

lemma sched_wallet_count:
  "totalSuccessful (fst (scheduled_wallet f env m acc w))
     + totalSkipped (fst (scheduled_wallet f env m acc w))
   = totalSuccessful (fst acc) + totalSkipped (fst acc) + (if address w = ''N/A'' then 0 else 1)"
  by (simp add: scheduled_wallet_def Let_def split: sum.split)

lemma sched_wallet_iteration:
  "iterationCount (fst (scheduled_wallet f env m acc w)) = iterationCount (fst acc)"
  by (simp add: scheduled_wallet_def Let_def split: sum.split)

lemma sched_wallets_fold:
  "job_calls (fst (foldl (scheduled_wallet f env m) acc ws))
     = job_calls (fst acc) @ map (sweep_args_for env m) (filter (\<lambda>w. address w \<noteq> ''N/A'') ws)
   \<and> totalSuccessful (fst (foldl (scheduled_wallet f env m) acc ws))
       + totalSkipped (fst (foldl (scheduled_wallet f env m) acc ws))
     = totalSuccessful (fst acc) + totalSkipped (fst acc)
       + length (filter (\<lambda>w. address w \<noteq> ''N/A'') ws)
   \<and> iterationCount (fst (foldl (scheduled_wallet f env m) acc ws)) = iterationCount (fst acc)"
proof (induction ws arbitrary: acc)
  case Nil
  then show ?case by simp
next
  case (Cons w ws)
  show ?case
    using Cons.IH [of "scheduled_wallet f env m acc w"]
      sched_wallet_calls [of f env m acc w] sched_wallet_count [of f env m acc w]
      sched_wallet_iteration [of f env m acc w]
    by simp
qed

lemma sched_merchant:
  "job_calls (fst (scheduled_merchant f env acc m))
     = job_calls (fst acc) @ map (args_of env) (sweepable (map (\<lambda>w. (m, w)) (wallets m)))
   \<and> totalSuccessful (fst (scheduled_merchant f env acc m))
       + totalSkipped (fst (scheduled_merchant f env acc m))
     = totalSuccessful (fst acc) + totalSkipped (fst acc)
       + length (sweepable (map (\<lambda>w. (m, w)) (wallets m)))
   \<and> iterationCount (fst (scheduled_merchant f env acc m)) = iterationCount (fst acc)"
  using sched_wallets_fold [of f env m acc "wallets m"]
  by (simp add: scheduled_merchant_def sweepable_def args_of_def filter_map comp_def)

lemma sched_merchants_fold:
  "job_calls (fst (foldl (scheduled_merchant f env) acc ms))
     = job_calls (fst acc) @ map (args_of env) (sweepable (all_wallets ms))
   \<and> totalSuccessful (fst (foldl (scheduled_merchant f env) acc ms))
       + totalSkipped (fst (foldl (scheduled_merchant f env) acc ms))
     = totalSuccessful (fst acc) + totalSkipped (fst acc) + length (sweepable (all_wallets ms))
   \<and> iterationCount (fst (foldl (scheduled_merchant f env) acc ms)) = iterationCount (fst acc)"
proof (induction ms arbitrary: acc)
  case Nil
  then show ?case by (simp add: all_wallets_def sweepable_def)
next
  case (Cons m ms)
  have a: "all_wallets (m # ms) = map (\<lambda>w. (m, w)) (wallets m) @ all_wallets ms"
    by (simp add: all_wallets_def)
  show ?case
    using Cons.IH [of "scheduled_merchant f env acc m"] sched_merchant [of f env acc m]
    by (simp add: a sweepable_append)
qed

lemma runSweep_iteration: "iterationCount (runSweep f env listed st) = iterationCount st + 1"
proof (cases listed)
  case (Inl e)
  then show ?thesis by (simp add: runSweep_def Let_def)
next
  case (Inr ms)
  show ?thesis
    using sched_merchants_fold
            [of f env "(st\<lparr>iterationCount := iterationCount st + 1,
                            console := console st @ [IterationHeader (iterationCount st + 1),
                              CheckingWallets (length (all_wallets ms)) (length ms)]\<rparr>, 0)" ms]
    by (simp add: runSweep_def Let_def Inr)
qed

lemma runSweep_calls:
  "job_calls (runSweep f env (Inr ms) st)
     = job_calls st @ map (args_of env) (sweepable (all_wallets ms))
   \<and> totalSuccessful (runSweep f env (Inr ms) st) + totalSkipped (runSweep f env (Inr ms) st)
     = totalSuccessful st + totalSkipped st + length (sweepable (all_wallets ms))"
proof (cases "ms = []")
  case True
  then show ?thesis by (simp add: runSweep_def Let_def all_wallets_def sweepable_def)
next
  case False
  then show ?thesis
    using sched_merchants_fold
            [of f env "(st\<lparr>iterationCount := iterationCount st + 1,
                            console := console st @ [IterationHeader (iterationCount st + 1),
                              CheckingWallets (length (all_wallets ms)) (length ms)]\<rparr>, 0)" ms]
    by (simp add: runSweep_def Let_def)
qed

lemma runSweep_listing_failure:
  "runSweep f env (Inl message) st
   = st\<lparr>iterationCount := iterationCount st + 1,
        console := console st @ [IterationHeader (iterationCount st + 1), IterationError message]\<rparr>"
  by (simp add: runSweep_def Let_def)

lemma wallet_step_entry:
  "results (sweepFunds_wallet f env m st wl)
   = results st @
     [if address wl = ''N/A'' then
        \<lparr>r_merchantName = subOrganizationName m, r_walletAddress = address wl,
         r_walletName = walletName wl, r_success = False, r_amount = None,
         r_transactionHash = None, r_error = Some ''Address not available''\<rparr>
      else (case fst (f (sweep_args_for env m wl) (world st)) of
              Inl message \<Rightarrow>
                \<lparr>r_merchantName = subOrganizationName m, r_walletAddress = address wl,
                 r_walletName = walletName wl, r_success = False, r_amount = None,
                 r_transactionHash = None, r_error = Some message\<rparr>
            | Inr sweepResult \<Rightarrow>
                if success sweepResult then
                  \<lparr>r_merchantName = subOrganizationName m, r_walletAddress = address wl,
                   r_walletName = walletName wl, r_success = True, r_amount = amount sweepResult,
                   r_transactionHash = transactionHash sweepResult, r_error = None\<rparr>
                else
                  \<lparr>r_merchantName = subOrganizationName m, r_walletAddress = address wl,
                   r_walletName = walletName wl, r_success = False, r_amount = None,
                   r_transactionHash = None, r_error = error sweepResult\<rparr>)]"
  by (simp add: sweepFunds_wallet_def push_entry_def Let_def split: sum.split)

lemma wallet_step_world:
  "world (sweepFunds_wallet f env m st wl)
   = (if address wl = ''N/A'' then world st else snd (f (sweep_args_for env m wl) (world st)))"
  by (simp add: sweepFunds_wallet_def push_entry_def Let_def split: sum.split)

lemma merchant_flat:
  "sweepFunds_merchant f env st m
   = foldl (\<lambda>s mw. sweepFunds_wallet f env (fst mw) s (snd mw)) st (map (\<lambda>w. (m, w)) (wallets m))"
  by (simp add: sweepFunds_merchant_def foldl_map)

lemma loop_flat:
  "sweepFunds_loop f env ms st
   = foldl (\<lambda>s mw. sweepFunds_wallet f env (fst mw) s (snd mw)) st (all_wallets ms)"
  unfolding sweepFunds_loop_def
proof (induction ms arbitrary: st)
  case Nil
  then show ?case by (simp add: all_wallets_def)
next
  case (Cons m ms)
  have a: "all_wallets (m # ms) = map (\<lambda>w. (m, w)) (wallets m) @ all_wallets ms"
    by (simp add: all_wallets_def)
  show ?case
    unfolding a foldl_append foldl_Cons Cons.IH [of "sweepFunds_merchant f env st m"]
    by (simp only: merchant_flat)
qed

lemma fold_world_generic:
  assumes "\<And>st x. world (S st x) = W (world st) x"
  shows "world (foldl S st xs) = foldl W (world st) xs"
  by (induction xs arbitrary: st) (simp_all add: assms)

lemma fold_results_generic:
  assumes step: "\<And>st x. results (S st x) = results st @ [E (world st) x]"
      and wstep: "\<And>st x. world (S st x) = W (world st) x"
  shows "results (foldl S st xs)
         = results st @ map (\<lambda>i. E (foldl W (world st) (take i xs)) (xs ! i)) [0 ..< length xs]"
proof (induction xs rule: rev_induct)
  case Nil
  show ?case by simp
next
  case (snoc x xs)
  have w: "world (foldl S st xs) = foldl W (world st) xs"
    by (rule fold_world_generic) (rule wstep)
  show ?case
    by (simp add: step snoc.IH w nth_append cong: map_cong)
qed

lemma fold_world_sweepable:
  "foldl (\<lambda>w mw. if address (snd mw) = ''N/A'' then w else snd (f (args_of env mw) w)) w0 xs
   = foldl (\<lambda>w a. snd (f a w)) w0 (map (args_of env) (sweepable xs))"
  by (induction xs arbitrary: w0) (simp_all add: sweepable_def case_prod_beta)

lemma loop_world:
  "world (sweepFunds_loop f env ms st)
   = foldl (\<lambda>w a. snd (f a w)) (world st) (map (args_of env) (sweepable (all_wallets ms)))"
proof -
  let ?S = "\<lambda>s mw. sweepFunds_wallet f env (fst mw) s (snd mw)"
  let ?W = "\<lambda>w mw. if address (snd mw) = ''N/A'' then w else snd (f (args_of env mw) w)"
  have "world (foldl ?S st (all_wallets ms)) = foldl ?W (world st) (all_wallets ms)"
    by (rule fold_world_generic) (simp add: wallet_step_world args_of_def)
  then show ?thesis unfolding loop_flat by (simp only: fold_world_sweepable)
qed

lemma loop_results:
  "results (sweepFunds_loop f env ms st)
   = results st @
     map (\<lambda>i. hd (results (sweepFunds_wallet f env (fst (all_wallets ms ! i))
                         \<lparr>results = [],
                          world = foldl (\<lambda>w a. snd (f a w)) (world st)
                                    (map (args_of env) (sweepable (take i (all_wallets ms)))),
                          sweep_calls = []\<rparr>
                         (snd (all_wallets ms ! i)))))
       [0 ..< length (all_wallets ms)]"
proof -
  let ?S = "\<lambda>s mw. sweepFunds_wallet f env (fst mw) s (snd mw)"
  let ?W = "\<lambda>w mw. if address (snd mw) = ''N/A'' then w else snd (f (args_of env mw) w)"
  let ?E = "\<lambda>w mw. hd (results (sweepFunds_wallet f env (fst mw)
                                 \<lparr>results = [], world = w, sweep_calls = []\<rparr> (snd mw)))"
  have "results (foldl ?S st (all_wallets ms))
        = results st @ map (\<lambda>i. ?E (foldl ?W (world st) (take i (all_wallets ms))) (all_wallets ms ! i))
                         [0 ..< length (all_wallets ms)]"
    by (rule fold_results_generic) (simp_all add: wallet_step_entry wallet_step_world args_of_def)
  then show ?thesis unfolding loop_flat by (simp only: fold_world_sweepable)
qed

lemma loop_entry:
  assumes "i < length (all_wallets ms)"
  shows "results (sweepFunds_loop f env ms \<lparr>results = [], world = w0, sweep_calls = []\<rparr>) ! i
         = hd (results (sweepFunds_wallet f env (fst (all_wallets ms ! i))
                          \<lparr>results = [],
                           world = foldl (\<lambda>w a. snd (f a w)) w0
                                     (map (args_of env) (sweepable (take i (all_wallets ms)))),
                           sweep_calls = []\<rparr>
                          (snd (all_wallets ms ! i))))"
  using assms by (simp add: loop_results)

lemma loop_length:
  "length (results (sweepFunds_loop f env ms \<lparr>results = [], world = w0, sweep_calls = []\<rparr>))
   = length (all_wallets ms)"
  by (simp add: loop_results)

lemma runSweepFunds_runs_loop:
  "runSweepFunds f net usdc treasury listed w0
   = (if or_else usdc [] = [] \<or> isl treasury \<or> isl listed \<or> listed = Inr [] then None
      else Some (sweepFunds_loop f
                   \<lparr>env_treasuryAddress = projr treasury,
                    env_usdcTokenAddress = or_else usdc [],
                    env_network = net\<rparr>
                   (projr listed)
                   \<lparr>results = [], world = w0, sweep_calls = []\<rparr>))"
  by (auto simp: runSweepFunds_def truthy_def or_else_def split: option.splits sum.splits)

lemma sched_wallet_world:
  "job_world (fst (scheduled_wallet f env m acc w))
   = (if address w = ''N/A'' then job_world (fst acc)
      else snd (f (sweep_args_for env m w) (job_world (fst acc))))"
  by (simp add: scheduled_wallet_def Let_def split: sum.split)

lemma sched_wallets_world:
  "job_world (fst (foldl (scheduled_wallet f env m) acc ws))
   = foldl (\<lambda>w a. snd (f a w)) (job_world (fst acc))
       (map (sweep_args_for env m) (filter (\<lambda>w. address w \<noteq> ''N/A'') ws))"
proof (induction ws arbitrary: acc)
  case Nil
  then show ?case by simp
next
  case (Cons w ws)
  show ?case
    by (simp add: Cons.IH [of "scheduled_wallet f env m acc w"] sched_wallet_world)
qed

lemma sched_merchant_world:
  "job_world (fst (scheduled_merchant f env acc m))
   = foldl (\<lambda>w a. snd (f a w)) (job_world (fst acc))
       (map (args_of env) (sweepable (map (\<lambda>w. (m, w)) (wallets m))))"
  using sched_wallets_world [of f env m acc "wallets m"]
  by (simp add: scheduled_merchant_def sweepable_def args_of_def filter_map comp_def)

lemma sched_merchants_world:
  "job_world (fst (foldl (scheduled_merchant f env) acc ms))
   = foldl (\<lambda>w a. snd (f a w)) (job_world (fst acc))
       (map (args_of env) (sweepable (all_wallets ms)))"
proof (induction ms arbitrary: acc)
  case Nil
  then show ?case by (simp add: all_wallets_def sweepable_def)
next
  case (Cons m ms)
  have a: "all_wallets (m # ms) = map (\<lambda>w. (m, w)) (wallets m) @ all_wallets ms"
    by (simp add: all_wallets_def)
  show ?case
    using Cons.IH [of "scheduled_merchant f env acc m"] sched_merchant_world [of f env acc m]
    by (simp add: a sweepable_append)
qed

lemma runSweep_world:
  "job_world (runSweep f env (Inr ms) st)
   = foldl (\<lambda>w a. snd (f a w)) (job_world st) (map (args_of env) (sweepable (all_wallets ms)))"
proof (cases "ms = []")
  case True
  then show ?thesis by (simp add: runSweep_def Let_def all_wallets_def sweepable_def)
next
  case False
  then show ?thesis
    using sched_merchants_world
            [of f env "(st\<lparr>iterationCount := iterationCount st + 1,
                            console := console st @ [IterationHeader (iterationCount st + 1),
                              CheckingWallets (length (all_wallets ms)) (length ms)]\<rparr>, 0)" ms]
    by (simp add: runSweep_def Let_def)
qed

text \<open>
  Claim C7, as the code has it. The one-time command ends before the loop only for a
  missing token address, a treasury that cannot be set up, a listing that fails or an
  empty listing; in every other case what it does is the batch loop over the listed
  merchants, run from an empty results array. For every account set and whatever
  \<^verbatim>\<open>sweepUSDC\<close> does (resolve or reject), one run of the loop applies \<^verbatim>\<open>sweepUSDC\<close> exactly
  once, in listing order, to every wallet whose address is known: the calls made are
  those, and the outside world at the end is the one reached by threading it through
  exactly those calls. A wallet whose address is \<^verbatim>\<open>N/A\<close> is not swept. Every wallet, swept
  or not, gets exactly one entry in the results, in listing order: for an \<^verbatim>\<open>N/A\<close> wallet
  the failed entry \<^verbatim>\<open>Address not available\<close>; otherwise the entry made from the answer that
  \<^verbatim>\<open>sweepUSDC\<close> gave for this wallet in the world that the sweeps of the wallets before it
  left, a rejection being recorded with its message as a failed entry like any other
  failure. The loop is sequential: the merchants that come later start from the state
  that the earlier ones left. An iteration of the scheduled job makes the same calls
  with the same effect on the outside world, counts each of them as successful or
  skipped, and always completes, also when the listing fails.
\<close>

theorem batch_attempts_each_sweepable_wallet_once:
  "runSweepFunds f net usdc treasury listed w0
     = (if or_else usdc [] = [] \<or> isl treasury \<or> isl listed \<or> listed = Inr [] then None
        else Some (sweepFunds_loop f
                     \<lparr>env_treasuryAddress = projr treasury,
                      env_usdcTokenAddress = or_else usdc [],
                      env_network = net\<rparr>
                     (projr listed)
                     \<lparr>results = [], world = w0, sweep_calls = []\<rparr>))
   \<and> sweep_calls (sweepFunds_loop f env ms \<lparr>results = [], world = w0, sweep_calls = []\<rparr>)
     = map (args_of env) (sweepable (all_wallets ms))
   \<and> world (sweepFunds_loop f env ms \<lparr>results = [], world = w0, sweep_calls = []\<rparr>)
     = foldl (\<lambda>w a. snd (f a w)) w0 (map (args_of env) (sweepable (all_wallets ms)))
   \<and> map entry_key (results (sweepFunds_loop f env ms \<lparr>results = [], world = w0, sweep_calls = []\<rparr>))
     = map wallet_key (all_wallets ms)
   \<and> (\<forall>i < length (all_wallets ms).
        let m = fst (all_wallets ms ! i);
            wl = snd (all_wallets ms ! i);
            worldBefore = foldl (\<lambda>w a. snd (f a w)) w0
                            (map (args_of env) (sweepable (take i (all_wallets ms))));
            entry = results (sweepFunds_loop f env ms
                               \<lparr>results = [], world = w0, sweep_calls = []\<rparr>) ! i
        in if address wl = ''N/A'' then
             entry = \<lparr>r_merchantName = subOrganizationName m, r_walletAddress = address wl,
                      r_walletName = walletName wl, r_success = False, r_amount = None,
                      r_transactionHash = None, r_error = Some ''Address not available''\<rparr>
           else (case fst (f (sweep_args_for env m wl) worldBefore) of
                   Inl message \<Rightarrow>
                     entry = \<lparr>r_merchantName = subOrganizationName m, r_walletAddress = address wl,
                              r_walletName = walletName wl, r_success = False, r_amount = None,
                              r_transactionHash = None, r_error = Some message\<rparr>
                 | Inr sweepResult \<Rightarrow>
                     if success sweepResult then
                       entry = \<lparr>r_merchantName = subOrganizationName m, r_walletAddress = address wl,
                                r_walletName = walletName wl, r_success = True,
                                r_amount = amount sweepResult,
                                r_transactionHash = transactionHash sweepResult, r_error = None\<rparr>
                     else
                       entry = \<lparr>r_merchantName = subOrganizationName m, r_walletAddress = address wl,
                                r_walletName = walletName wl, r_success = False, r_amount = None,
                                r_transactionHash = None, r_error = error sweepResult\<rparr>))
   \<and> sweepFunds_loop f env (ms1 @ ms2) st
     = sweepFunds_loop f env ms2 (sweepFunds_loop f env ms1 st)
   \<and> job_calls (runSweep f env (Inr ms) jst)
     = job_calls jst @ map (args_of env) (sweepable (all_wallets ms))
   \<and> job_world (runSweep f env (Inr ms) jst)
     = foldl (\<lambda>w a. snd (f a w)) (job_world jst) (map (args_of env) (sweepable (all_wallets ms)))
   \<and> totalSuccessful (runSweep f env (Inr ms) jst) + totalSkipped (runSweep f env (Inr ms) jst)
     = totalSuccessful jst + totalSkipped jst + length (sweepable (all_wallets ms))
   \<and> iterationCount (runSweep f env listed jst) = iterationCount jst + 1"
proof (intro conjI allI impI)
  show "runSweepFunds f net usdc treasury listed w0
     = (if or_else usdc [] = [] \<or> isl treasury \<or> isl listed \<or> listed = Inr [] then None
        else Some (sweepFunds_loop f
                     \<lparr>env_treasuryAddress = projr treasury,
                      env_usdcTokenAddress = or_else usdc [],
                      env_network = net\<rparr>
                     (projr listed)
                     \<lparr>results = [], world = w0, sweep_calls = []\<rparr>))"
    by (rule runSweepFunds_runs_loop)
  show "sweep_calls (sweepFunds_loop f env ms \<lparr>results = [], world = w0, sweep_calls = []\<rparr>)
     = map (args_of env) (sweepable (all_wallets ms))"
    by (simp add: loop_calls)
  show "world (sweepFunds_loop f env ms \<lparr>results = [], world = w0, sweep_calls = []\<rparr>)
     = foldl (\<lambda>w a. snd (f a w)) w0 (map (args_of env) (sweepable (all_wallets ms)))"
    by (simp add: loop_world)
  show "map entry_key (results (sweepFunds_loop f env ms \<lparr>results = [], world = w0, sweep_calls = []\<rparr>))
     = map wallet_key (all_wallets ms)"
    by (simp add: loop_keys)
  show "sweepFunds_loop f env (ms1 @ ms2) st
     = sweepFunds_loop f env ms2 (sweepFunds_loop f env ms1 st)"
    by (rule loop_append)
  show "job_calls (runSweep f env (Inr ms) jst)
     = job_calls jst @ map (args_of env) (sweepable (all_wallets ms))"
    using runSweep_calls [of f env ms jst] by blast
  show "job_world (runSweep f env (Inr ms) jst)
     = foldl (\<lambda>w a. snd (f a w)) (job_world jst) (map (args_of env) (sweepable (all_wallets ms)))"
    by (rule runSweep_world)
  show "totalSuccessful (runSweep f env (Inr ms) jst) + totalSkipped (runSweep f env (Inr ms) jst)
     = totalSuccessful jst + totalSkipped jst + length (sweepable (all_wallets ms))"
    using runSweep_calls [of f env ms jst] by blast
  show "iterationCount (runSweep f env listed jst) = iterationCount jst + 1"
    by (rule runSweep_iteration)
next
  fix i assume i: "i < length (all_wallets ms)"
  show "let m = fst (all_wallets ms ! i);
            wl = snd (all_wallets ms ! i);
            worldBefore = foldl (\<lambda>w a. snd (f a w)) w0
                            (map (args_of env) (sweepable (take i (all_wallets ms))));
            entry = results (sweepFunds_loop f env ms
                               \<lparr>results = [], world = w0, sweep_calls = []\<rparr>) ! i
        in if address wl = ''N/A'' then
             entry = \<lparr>r_merchantName = subOrganizationName m, r_walletAddress = address wl,
                      r_walletName = walletName wl, r_success = False, r_amount = None,
                      r_transactionHash = None, r_error = Some ''Address not available''\<rparr>
           else (case fst (f (sweep_args_for env m wl) worldBefore) of
                   Inl message \<Rightarrow>
                     entry = \<lparr>r_merchantName = subOrganizationName m, r_walletAddress = address wl,
                              r_walletName = walletName wl, r_success = False, r_amount = None,
                              r_transactionHash = None, r_error = Some message\<rparr>
                 | Inr sweepResult \<Rightarrow>
                     if success sweepResult then
                       entry = \<lparr>r_merchantName = subOrganizationName m, r_walletAddress = address wl,
                                r_walletName = walletName wl, r_success = True,
                                r_amount = amount sweepResult,
                                r_transactionHash = transactionHash sweepResult, r_error = None\<rparr>
                     else
                       entry = \<lparr>r_merchantName = subOrganizationName m, r_walletAddress = address wl,
                                r_walletName = walletName wl, r_success = False, r_amount = None,
                                r_transactionHash = None, r_error = error sweepResult\<rparr>)"
    unfolding loop_entry [OF i]
    by (simp add: wallet_step_entry Let_def split: sum.split)
qed

theorem batch_attempts_each_sweepable_wallet_once_witness:
  "runSweepFunds example_sweeper ''sepolia'' (Some ''0xusdc'') (Inr ''0xtreasury'')
     (Inr [example_merchant]) 0
     = Some (sweepFunds_loop example_sweeper example_env [example_merchant]
               \<lparr>results = [], world = 0, sweep_calls = []\<rparr>)
   \<and> length (all_wallets [example_merchant]) = 3
   \<and> sweep_calls (sweepFunds_loop example_sweeper example_env [example_merchant]
                  \<lparr>results = [], world = 0, sweep_calls = []\<rparr>)
     = [sweep_args_for example_env example_merchant
          \<lparr>walletId = ''w1'', walletName = ''Acme Wallet'', address = ''0xaaa''\<rparr>,
        sweep_args_for example_env example_merchant
          \<lparr>walletId = ''w2'', walletName = ''Second'', address = ''0xbbb''\<rparr>]
   \<and> world (sweepFunds_loop example_sweeper example_env [example_merchant]
                  \<lparr>results = [], world = 0, sweep_calls = []\<rparr>) = 2
   \<and> results (sweepFunds_loop example_sweeper example_env [example_merchant]
                  \<lparr>results = [], world = 0, sweep_calls = []\<rparr>) ! 0
     = \<lparr>r_merchantName = ''Acme'', r_walletAddress = ''N/A'', r_walletName = ''Unreadable'',
        r_success = False, r_amount = None, r_transactionHash = None,
        r_error = Some ''Address not available''\<rparr>
   \<and> results (sweepFunds_loop example_sweeper example_env [example_merchant]
                  \<lparr>results = [], world = 0, sweep_calls = []\<rparr>) ! 1
     = \<lparr>r_merchantName = ''Acme'', r_walletAddress = ''0xaaa'', r_walletName = ''Acme Wallet'',
        r_success = False, r_amount = None, r_transactionHash = None,
        r_error = Some ''network error''\<rparr>
   \<and> results (sweepFunds_loop example_sweeper example_env [example_merchant]
                  \<lparr>results = [], world = 0, sweep_calls = []\<rparr>) ! 2
     = \<lparr>r_merchantName = ''Acme'', r_walletAddress = ''0xbbb'', r_walletName = ''Second'',
        r_success = True, r_amount = Some ''0.05'', r_transactionHash = Some ''0xabc'',
        r_error = None\<rparr>"
proof -
  let ?w0 = "\<lparr>walletId = ''w0'', walletName = ''Unreadable'', address = ''N/A''\<rparr>"
  let ?w1 = "\<lparr>walletId = ''w1'', walletName = ''Acme Wallet'', address = ''0xaaa''\<rparr>"
  let ?w2 = "\<lparr>walletId = ''w2'', walletName = ''Second'', address = ''0xbbb''\<rparr>"
  let ?fin = "sweepFunds_loop example_sweeper example_env [example_merchant]
                \<lparr>results = [], world = 0, sweep_calls = []\<rparr>"
  note T = batch_attempts_each_sweepable_wallet_once
             [where f = example_sweeper and env = example_env and ms = "[example_merchant]"
                and ?w0.0 = "0 :: nat" and net = "''sepolia''" and usdc = "Some ''0xusdc''"
                and treasury = "Inr ''0xtreasury''" and listed = "Inr [example_merchant]"]
  have aw: "all_wallets [example_merchant]
            = [(example_merchant, ?w0), (example_merchant, ?w1), (example_merchant, ?w2)]"
    by (simp add: all_wallets_def example_merchant_def)
  have nm: "subOrganizationName example_merchant = ''Acme''"
    by (simp add: example_merchant_def)
  have s: "sweepable [(example_merchant, ?w0), (example_merchant, ?w1), (example_merchant, ?w2)]
           = [(example_merchant, ?w1), (example_merchant, ?w2)]"
          "sweepable [(example_merchant, ?w0)] = []"
          "sweepable [(example_merchant, ?w0), (example_merchant, ?w1)] = [(example_merchant, ?w1)]"
          "sweepable [] = []"
    by (simp_all add: sweepable_def)
  have a1: "fst (example_sweeper (sweep_args_for example_env example_merchant ?w1) n)
            = Inl ''network error''"
           "snd (example_sweeper a n) = n + 1" for n a
    by (simp_all add: example_sweeper_def sweep_args_for_def)
  have a2: "fst (example_sweeper (sweep_args_for example_env example_merchant ?w2) n)
            = Inr \<lparr>success = True, amount = Some ''0.05'', transactionHash = Some ''0xabc'',
                   error = None\<rparr>" for n
    by (simp add: example_sweeper_def sweep_args_for_def)
  have 1: "runSweepFunds example_sweeper ''sepolia'' (Some ''0xusdc'') (Inr ''0xtreasury'')
             (Inr [example_merchant]) 0 = Some ?fin"
    using T [THEN conjunct1] by (simp add: or_else_def example_env_def)
  have 2: "sweep_calls ?fin
           = [sweep_args_for example_env example_merchant ?w1,
              sweep_args_for example_env example_merchant ?w2]"
    using T [THEN conjunct2, THEN conjunct1] unfolding aw s by (simp add: args_of_def)
  have 3: "world ?fin = 2"
    using T [THEN conjunct2, THEN conjunct2, THEN conjunct1] unfolding aw s
    by (simp add: a1)
  note E = T [THEN conjunct2, THEN conjunct2, THEN conjunct2, THEN conjunct2, THEN conjunct1,
              rule_format, unfolded aw]
  have 4: "results ?fin ! 0
           = \<lparr>r_merchantName = ''Acme'', r_walletAddress = ''N/A'', r_walletName = ''Unreadable'',
              r_success = False, r_amount = None, r_transactionHash = None,
              r_error = Some ''Address not available''\<rparr>"
    using E [of 0] by (simp add: Let_def nm)
  have 5: "results ?fin ! 1
           = \<lparr>r_merchantName = ''Acme'', r_walletAddress = ''0xaaa'', r_walletName = ''Acme Wallet'',
              r_success = False, r_amount = None, r_transactionHash = None,
              r_error = Some ''network error''\<rparr>"
    using E [of 1] by (simp add: Let_def nm s a1)
  have 6: "results ?fin ! 2
           = \<lparr>r_merchantName = ''Acme'', r_walletAddress = ''0xbbb'', r_walletName = ''Second'',
              r_success = True, r_amount = Some ''0.05'', r_transactionHash = Some ''0xabc'',
              r_error = None\<rparr>"
    using E [of 2] by (simp add: Let_def nm s a1 a2)
  show ?thesis
    using 1 2 3 4 5 6 by (simp add: aw)
qed

text \<open>
  Claim C7 as stated fails for a wallet whose address could not be read: it is a wallet
  of the account, and the run makes no sweep call for it.
\<close>

theorem wallet_without_address_counterexample:
  "all_wallets [example_merchant\<lparr>wallets := [\<lparr>walletId = ''w0'', walletName = ''Unreadable'',
                                               address = ''N/A''\<rparr>]\<rparr>]
     = [(example_merchant\<lparr>wallets := [\<lparr>walletId = ''w0'', walletName = ''Unreadable'',
                                          address = ''N/A''\<rparr>]\<rparr>,
         \<lparr>walletId = ''w0'', walletName = ''Unreadable'', address = ''N/A''\<rparr>)]
   \<and> sweep_calls (sweepFunds_loop example_sweeper example_env
        [example_merchant\<lparr>wallets := [\<lparr>walletId = ''w0'', walletName = ''Unreadable'',
                                        address = ''N/A''\<rparr>]\<rparr>]
        \<lparr>results = [], world = 0, sweep_calls = []\<rparr>) = []"
  by (simp add: all_wallets_def sweepFunds_loop_def sweepFunds_merchant_def sweepFunds_wallet_def
        push_entry_def example_merchant_def)

lemma logs_error_documented:
  "logs_error (documented_error NoBalance) = False"
  "logs_error (documented_error BelowThreshold) = False"
  "logs_error (documented_error InsufficientGas) = True"
  "logs_error (documented_error TransactionFailed) = True"
  by (simp_all add: logs_error_def truthy_def or_else_def)

text \<open>
  Claim C8, as the code has it. When the sweep of a wallet resolves without success, the
  scheduled job counts it in the one skipped/failed counter, whatever its kind, and logs
  a warning line unless the error text is empty or contains \<^verbatim>\<open>below threshold\<close> or
  \<^verbatim>\<open>No USDC\<close>. With the documented error texts, NoBalance and BelowThreshold are not
  logged, InsufficientGas and TransactionFailed are.
\<close>

theorem scheduler_logs_failures_by_error_text:
  assumes "address w \<noteq> ''N/A''"
    and "fst (f (sweep_args_for env m w) (job_world st)) = Inr (failure_result msg)"
  shows "console (fst (scheduled_wallet f env m (st, n) w))
           = console st @ (if logs_error (Some msg)
                           then [WarningLine (subOrganizationName m) (walletName w) msg] else [])
     \<and> totalSkipped (fst (scheduled_wallet f env m (st, n) w)) = totalSkipped st + 1
     \<and> totalSuccessful (fst (scheduled_wallet f env m (st, n) w)) = totalSuccessful st
     \<and> snd (scheduled_wallet f env m (st, n) w) = n
     \<and> logs_error (documented_error NoBalance) = False
     \<and> logs_error (documented_error BelowThreshold) = False
     \<and> logs_error (documented_error InsufficientGas) = True
     \<and> logs_error (documented_error TransactionFailed) = True"
proof -
  have o: "logs_error (Some msg) \<Longrightarrow> or_else (Some msg) [] = msg"
    by (simp add: or_else_def)
  have "console (fst (scheduled_wallet f env m (st, n) w))
           = console st @ (if logs_error (Some msg)
                           then [WarningLine (subOrganizationName m) (walletName w) msg] else [])
     \<and> totalSkipped (fst (scheduled_wallet f env m (st, n) w)) = totalSkipped st + 1
     \<and> totalSuccessful (fst (scheduled_wallet f env m (st, n) w)) = totalSuccessful st
     \<and> snd (scheduled_wallet f env m (st, n) w) = n"
    using assms o
    by (simp add: scheduled_wallet_def Let_def failure_result_def)
  then show ?thesis
    using logs_error_documented by (simp only:) 
qed

theorem scheduler_logs_failures_by_error_text_witness:
  "address \<lparr>walletId = ''w1'', walletName = ''Acme Wallet'', address = ''0xaaa''\<rparr> \<noteq> ''N/A''
   \<and> fst (gas_starved_sweeper
            (sweep_args_for example_env example_merchant
               \<lparr>walletId = ''w1'', walletName = ''Acme Wallet'', address = ''0xaaa''\<rparr>) 0)
       = Inr (failure_result ''Insufficient ETH for gas fees'')
   \<and> totalSkipped (fst (scheduled_wallet gas_starved_sweeper example_env example_merchant
        (\<lparr>iterationCount = 1, totalSuccessful = 0, totalSkipped = 0, console = [],
          job_world = 0, job_calls = []\<rparr>, 0)
        \<lparr>walletId = ''w1'', walletName = ''Acme Wallet'', address = ''0xaaa''\<rparr>)) = 1"
proof -
  have a: "address \<lparr>walletId = ''w1'', walletName = ''Acme Wallet'', address = ''0xaaa''\<rparr> \<noteq> ''N/A''"
    by simp
  have b: "fst (gas_starved_sweeper
            (sweep_args_for example_env example_merchant
               \<lparr>walletId = ''w1'', walletName = ''Acme Wallet'', address = ''0xaaa''\<rparr>)
            (job_world \<lparr>iterationCount = 1, totalSuccessful = 0, totalSkipped = 0, console = [],
                        job_world = 0, job_calls = []\<rparr>))
       = Inr (failure_result ''Insufficient ETH for gas fees'')"
    by (simp add: gas_starved_sweeper_def)
  show ?thesis
    using scheduler_logs_failures_by_error_text
            [where f = gas_starved_sweeper and env = example_env and m = example_merchant
               and w = "\<lparr>walletId = ''w1'', walletName = ''Acme Wallet'', address = ''0xaaa''\<rparr>"
               and st = "\<lparr>iterationCount = 1, totalSuccessful = 0, totalSkipped = 0, console = [],
                          job_world = 0, job_calls = []\<rparr>"
               and msg = "''Insufficient ETH for gas fees''" and n = 0, OF a b]
          a b
    by simp
qed

text \<open>
  Claim C8 as stated fails for InsufficientGas: the scheduled job logs it as a warning,
  like a failure.
\<close>

theorem insufficient_gas_logged_counterexample:
  "documented_error InsufficientGas = Some ''Insufficient ETH for gas fees''
   \<and> console (fst (scheduled_wallet gas_starved_sweeper example_env example_merchant
        (\<lparr>iterationCount = 1, totalSuccessful = 0, totalSkipped = 0, console = [],
          job_world = 0, job_calls = []\<rparr>, 0)
        \<lparr>walletId = ''w1'', walletName = ''Acme Wallet'', address = ''0xaaa''\<rparr>))
     = [WarningLine ''Acme'' ''Acme Wallet'' ''Insufficient ETH for gas fees'']"
  by (simp add: scheduled_wallet_def Let_def gas_starved_sweeper_def failure_result_def
        logs_error_def truthy_def or_else_def example_merchant_def)

subsection \<open>The merchant directory\<close>

lemma read_sub_org_id: "read_sub_org api i = Inr m \<Longrightarrow> subOrganizationId m = i"
  by (auto simp: read_sub_org_def Let_def split: sum.splits)

lemma read_sub_org_ok:
  "(\<exists>m. read_sub_org api i = Inr m)
   = (\<not> isl (getTurnkeyClientForSubOrg api i) \<and> \<not> isl (getWallets api i))"
  by (auto simp: read_sub_org_def Let_def split: sum.splits)

lemma collect_ids:
  "map subOrganizationId (foldl (collect_step api) acc ids)
   = map subOrganizationId acc
     @ filter (\<lambda>i. \<not> isl (getTurnkeyClientForSubOrg api i) \<and> \<not> isl (getWallets api i)) ids"
proof (induction ids arbitrary: acc)
  case Nil
  then show ?case by simp
next
  case (Cons i ids)
  show ?case
  proof (cases "read_sub_org api i")
    case (Inl e)
    then have "\<not> (\<exists>m. read_sub_org api i = Inr m)" by simp
    then have no: "\<not> (\<not> isl (getTurnkeyClientForSubOrg api i) \<and> \<not> isl (getWallets api i))"
      using read_sub_org_ok [of api i] by blast
    have "foldl (collect_step api) acc (i # ids) = foldl (collect_step api) acc ids"
      using Inl by (simp add: collect_step_def)
    moreover have "filter (\<lambda>i. \<not> isl (getTurnkeyClientForSubOrg api i) \<and> \<not> isl (getWallets api i)) (i # ids)
       = filter (\<lambda>i. \<not> isl (getTurnkeyClientForSubOrg api i) \<and> \<not> isl (getWallets api i)) ids"
      using no by simp
    ultimately show ?thesis using Cons.IH [of acc] by (simp only:)
  next
    case (Inr m)
    then have "\<exists>m. read_sub_org api i = Inr m" by blast
    then have ok: "\<not> isl (getTurnkeyClientForSubOrg api i) \<and> \<not> isl (getWallets api i)"
      using read_sub_org_ok [of api i] by blast
    have sid: "subOrganizationId m = i" using Inr by (rule read_sub_org_id)
    have "foldl (collect_step api) acc (i # ids) = foldl (collect_step api) (acc @ [m]) ids"
      using Inr by (simp add: collect_step_def)
    moreover have "filter (\<lambda>i. \<not> isl (getTurnkeyClientForSubOrg api i) \<and> \<not> isl (getWallets api i)) (i # ids)
       = i # filter (\<lambda>i. \<not> isl (getTurnkeyClientForSubOrg api i) \<and> \<not> isl (getWallets api i)) ids"
      using ok by simp
    ultimately show ?thesis using Cons.IH [of "acc @ [m]"] sid by simp
  qed
qed

lemma collect_members:
  "\<forall>m \<in> set acc. read_sub_org api (subOrganizationId m) = Inr m \<Longrightarrow>
   \<forall>m \<in> set (foldl (collect_step api) acc ids). read_sub_org api (subOrganizationId m) = Inr m"
proof (induction ids arbitrary: acc)
  case Nil
  then show ?case by simp
next
  case (Cons i ids)
  show ?case
  proof (cases "read_sub_org api i")
    case (Inl e)
    then have f: "foldl (collect_step api) acc (i # ids) = foldl (collect_step api) acc ids"
      by (simp add: collect_step_def)
    show ?thesis using Cons.IH [OF Cons.prems] by (simp only: f)
  next
    case (Inr m)
    have sid: "subOrganizationId m = i" using Inr by (rule read_sub_org_id)
    have f: "foldl (collect_step api) acc (i # ids) = foldl (collect_step api) (acc @ [m]) ids"
      using Inr by (simp add: collect_step_def)
    have "read_sub_org api (subOrganizationId m) = Inr m" using Inr by (simp only: sid)
    then have pre: "\<forall>x \<in> set (acc @ [m]). read_sub_org api (subOrganizationId x) = Inr x"
      using Cons.prems by simp
    show ?thesis using Cons.IH [OF pre] by (simp only: f)
  qed
qed

lemma listMerchants_collect:
  "listMerchants api org =
     (case getSubOrgIds api org of
        Inl message \<Rightarrow> Inl (''Failed to list merchants: '' @ or_else (Some message) ''Unknown error'')
      | Inr resp \<Rightarrow> Inr (foldl (collect_step api) [] (or_list resp)))"
  unfolding listMerchants_def by (rule refl)

lemma wallet_not_available:
  "isl (getWalletAccounts api i (api_walletId w)) \<Longrightarrow>
   address (wallet_with_address api i w) = ''N/A''"
  by (cases "getWalletAccounts api i (api_walletId w)") (simp_all add: wallet_with_address_def)

lemma policies_unavailable: "isl (getPolicies api i) \<Longrightarrow> sub_org_policies api i = []"
  by (cases "getPolicies api i") (simp_all add: sub_org_policies_def)

lemma organization_unavailable:
  "isl (getOrganization api i) \<Longrightarrow> organization_name (getOrganization api i) = None"
  by (cases "getOrganization api i") (simp_all add: organization_name_def)

lemma read_sub_org_Inr:
  "getTurnkeyClientForSubOrg api i = Inr u \<Longrightarrow> getWallets api i = Inr resp \<Longrightarrow>
   read_sub_org api i =
     Inr \<lparr>subOrganizationId = i,
          subOrganizationName =
            (case organization_name (getOrganization api i) of
               Some n \<Rightarrow> n
             | None \<Rightarrow> wallet_based_name i (or_list resp)),
          wallets = map (wallet_with_address api i) (or_list resp),
          policies = sub_org_policies api i\<rparr>"
  by (simp add: read_sub_org_def Let_def)

text \<open>
  Claim C10. \<^verbatim>\<open>listMerchants\<close> throws exactly when the listing of the sub-organization
  ids itself fails, with the message of that failure. When the listing succeeds it
  returns, in listing order, the sub-organizations whose client could be created and
  whose wallets could be listed; the others are skipped. For a sub-organization that is
  returned, a wallet whose accounts cannot be read has the address \<^verbatim>\<open>N/A\<close>, policies
  that cannot be read give the empty list, and a name that cannot be read is derived
  from the wallets.
\<close>

theorem listMerchants_throws_only_when_listing_fails:
  "(\<forall>message. getSubOrgIds api org = Inl message \<longrightarrow>
      listMerchants api org
        = Inl (''Failed to list merchants: '' @ or_else (Some message) ''Unknown error''))
   \<and> (\<forall>resp. getSubOrgIds api org = Inr resp \<longrightarrow>
        (\<exists>merchants. listMerchants api org = Inr merchants
           \<and> map subOrganizationId merchants
               = filter (\<lambda>i. \<not> isl (getTurnkeyClientForSubOrg api i) \<and> \<not> isl (getWallets api i))
                   (or_list resp)
           \<and> (\<forall>m \<in> set merchants. read_sub_org api (subOrganizationId m) = Inr m)))
   \<and> (\<forall>resp. getTurnkeyClientForSubOrg api i = Inr () \<and> getWallets api i = Inr resp \<longrightarrow>
        (\<exists>m. read_sub_org api i = Inr m
           \<and> subOrganizationId m = i
           \<and> wallets m = map (wallet_with_address api i) (or_list resp)
           \<and> (\<forall>w. isl (getWalletAccounts api i (api_walletId w)) \<longrightarrow>
                  address (wallet_with_address api i w) = ''N/A'')
           \<and> (isl (getPolicies api i) \<longrightarrow> policies m = [])
           \<and> (isl (getOrganization api i) \<longrightarrow>
                  subOrganizationName m = wallet_based_name i (or_list resp))))"
proof (intro conjI allI impI)
  fix message assume "getSubOrgIds api org = Inl message"
  then show "listMerchants api org
        = Inl (''Failed to list merchants: '' @ or_else (Some message) ''Unknown error'')"
    by (simp add: listMerchants_def)
next
  fix resp assume r: "getSubOrgIds api org = Inr resp"
  let ?ms = "foldl (collect_step api) [] (or_list resp)"
  have 1: "listMerchants api org = Inr ?ms" using r by (simp add: listMerchants_collect)
  have 2: "map subOrganizationId ?ms
           = filter (\<lambda>i. \<not> isl (getTurnkeyClientForSubOrg api i) \<and> \<not> isl (getWallets api i))
               (or_list resp)"
    using collect_ids [of api "[]" "or_list resp"] by simp
  have 3: "\<forall>m \<in> set ?ms. read_sub_org api (subOrganizationId m) = Inr m"
    by (rule collect_members) simp
  show "\<exists>merchants. listMerchants api org = Inr merchants
           \<and> map subOrganizationId merchants
               = filter (\<lambda>i. \<not> isl (getTurnkeyClientForSubOrg api i) \<and> \<not> isl (getWallets api i))
                   (or_list resp)
           \<and> (\<forall>m \<in> set merchants. read_sub_org api (subOrganizationId m) = Inr m)"
    by (rule exI [of _ ?ms], intro conjI) (rule 1, rule 2, rule 3)
next
  fix resp assume a: "getTurnkeyClientForSubOrg api i = Inr () \<and> getWallets api i = Inr resp"
  let ?m = "\<lparr>subOrganizationId = i,
          subOrganizationName =
            (case organization_name (getOrganization api i) of
               Some n \<Rightarrow> n
             | None \<Rightarrow> wallet_based_name i (or_list resp)),
          wallets = map (wallet_with_address api i) (or_list resp),
          policies = sub_org_policies api i\<rparr>"
  have r: "read_sub_org api i = Inr ?m"
    using a by (intro read_sub_org_Inr) simp_all
  have s1: "subOrganizationId ?m = i" by simp
  have s2: "wallets ?m = map (wallet_with_address api i) (or_list resp)" by simp
  have n: "\<forall>w. isl (getWalletAccounts api i (api_walletId w)) \<longrightarrow>
                  address (wallet_with_address api i w) = ''N/A''"
    by (simp add: wallet_not_available)
  have p: "isl (getPolicies api i) \<longrightarrow> policies ?m = []"
    by (simp add: policies_unavailable)
  have o: "isl (getOrganization api i) \<longrightarrow>
                  subOrganizationName ?m = wallet_based_name i (or_list resp)"
    by (simp add: organization_unavailable)
  show "\<exists>m. read_sub_org api i = Inr m
           \<and> subOrganizationId m = i
           \<and> wallets m = map (wallet_with_address api i) (or_list resp)
           \<and> (\<forall>w. isl (getWalletAccounts api i (api_walletId w)) \<longrightarrow>
                  address (wallet_with_address api i w) = ''N/A'')
           \<and> (isl (getPolicies api i) \<longrightarrow> policies m = [])
           \<and> (isl (getOrganization api i) \<longrightarrow>
                  subOrganizationName m = wallet_based_name i (or_list resp))"
    by (rule exI [of _ ?m], intro conjI) (rule r, rule s1, rule s2, rule n, rule p, rule o)
qed

theorem listMerchants_throws_only_when_listing_fails_witness:
  "listMerchants example_api ''org''
     = Inr [\<lparr>subOrganizationId = ''sub-b'', subOrganizationName = ''Acme'',
             wallets = [\<lparr>walletId = ''w1'', walletName = ''Acme Wallet'', address = ''N/A''\<rparr>],
             policies = []\<rparr>]
   \<and> listMerchants (example_api\<lparr>getSubOrgIds := \<lambda>organizationId. Inl ''unauthorized''\<rparr>) ''org''
     = Inl ''Failed to list merchants: unauthorized''
   \<and> isl (getWallets example_api ''sub-a'')
   \<and> isl (getWalletAccounts example_api ''sub-b'' ''w1'')
   \<and> isl (getPolicies example_api ''sub-b'')
   \<and> isl (getOrganization example_api ''sub-b'')"
proof -
  have a: "getSubOrgIds (example_api\<lparr>getSubOrgIds := \<lambda>organizationId. Inl ''unauthorized''\<rparr>) ''org''
           = Inl ''unauthorized''"
    by simp
  have 1: "listMerchants (example_api\<lparr>getSubOrgIds := \<lambda>organizationId. Inl ''unauthorized''\<rparr>) ''org''
           = Inl ''Failed to list merchants: unauthorized''"
    using listMerchants_throws_only_when_listing_fails
            [of "example_api\<lparr>getSubOrgIds := \<lambda>organizationId. Inl ''unauthorized''\<rparr>" "''org''"] a
    by (simp add: or_else_def)
  have 2: "listMerchants example_api ''org''
     = Inr [\<lparr>subOrganizationId = ''sub-b'', subOrganizationName = ''Acme'',
             wallets = [\<lparr>walletId = ''w1'', walletName = ''Acme Wallet'', address = ''N/A''\<rparr>],
             policies = []\<rparr>]"
    by (simp add: listMerchants_def collect_step_def example_api_def or_list_def
          read_sub_org_def Let_def organization_name_def wallet_based_name_def truthy_def or_else_def suffix_def
          wallet_with_address_def sub_org_policies_def slice_first_def)
  show ?thesis using 1 2 by (simp add: example_api_def)
qed

subsection \<open>The timer: overlapping iterations\<close>

lemma spaced_bound:
  "in_flight j \<le> 1 \<Longrightarrow> ticks_spaced j evs \<Longrightarrow> max_in_flight j evs \<le> 1"
proof (induction evs arbitrary: j)
  case Nil
  then show ?case by simp
next
  case (Cons e es)
  have "in_flight (job_step j e) \<le> 1"
    using Cons.prems by (cases e) auto
  moreover have "ticks_spaced (job_step j e) es" using Cons.prems by simp
  ultimately have "max_in_flight (job_step j e) es \<le> 1" by (rule Cons.IH)
  then show ?case using Cons.prems by simp
qed

text \<open>
  Claim C1, as the code has it. The timer callback has no single-flight guard: once the
  timer is installed, every tick calls \<^verbatim>\<open>runSweep\<close> at once, which counts a new iteration
  and puts it in flight beside the ones still running; no tick is skipped. Before the
  timer is installed (while the first iteration is awaited) a tick has no effect. At most
  one iteration is in flight throughout a run in which every tick arrives when nothing
  is in flight, that is, when each iteration finishes within the interval.
\<close>

theorem timer_tick_starts_iteration_unguarded:
  "(phase j = Scheduled \<longrightarrow>
      job_step j Tick =
        j\<lparr>iterations_started := iterations_started j + 1, in_flight := in_flight j + 1\<rparr>)
   \<and> (phase j = FirstRun \<longrightarrow> job_step j Tick = j)
   \<and> (in_flight j \<le> 1 \<and> ticks_spaced j evs \<longrightarrow> max_in_flight j evs \<le> 1)"
  using spaced_bound [of j evs] by simp

theorem timer_tick_starts_iteration_unguarded_witness:
  "phase (job_step job_start IterationDone) = Scheduled
   \<and> in_flight (job_step (job_step job_start IterationDone) Tick) = 1
   \<and> iterations_started (job_step (job_step job_start IterationDone) Tick) = 2
   \<and> in_flight (job_step job_start IterationDone) \<le> 1
   \<and> ticks_spaced (job_step job_start IterationDone) [Tick, IterationDone, Tick, IterationDone]
   \<and> max_in_flight (job_step job_start IterationDone) [Tick, IterationDone, Tick, IterationDone] \<le> 1"
  using timer_tick_starts_iteration_unguarded
          [of "job_step job_start IterationDone" "[Tick, IterationDone, Tick, IterationDone]"]
  by (simp add: job_start_def)

text \<open>
  Claim C1 as stated fails: when the second tick arrives while the iteration started by
  the first tick is still running, it is not skipped; two iterations are in flight and
  three have been started.
\<close>

theorem overlapping_iterations_counterexample:
  "in_flight (job_run job_start [IterationDone, Tick, Tick]) = 2
   \<and> iterations_started (job_run job_start [IterationDone, Tick, Tick]) = 3"
  by (simp add: job_run_def job_start_def)

subsection \<open>The stop signal\<close>

text \<open>
  Claim C6 at the failing input. A stop signal that arrives while the iteration started
  by a tick is in flight: \<^verbatim>\<open>shutdown\<close> prints the cumulative summary and exits the process
  at once, so the iteration in flight is abandoned instead of being finished.
\<close>

theorem stop_signal_abandons_iteration_in_flight:
  "job_run job_start [IterationDone, Tick, StopSignal]
   = \<lparr>phase = Exited, iterations_started = 2, in_flight = 0, summary_printed = True,
      abandoned = 1\<rparr>"
  by (simp add: job_run_def job_start_def)

end
